theory Spec2Isabelle
  imports Complex_Main "HOL-Library.Char_ord" "HOL-Library.List_Lexorder" "HOL-Library.AList"
begin

section \<open>JavaScript numbers\<close>

text \<open>
  A JavaScript number is an IEEE binary64 value.  The model keeps the three special values and
  takes a finite number as the exact rational it stands for: rounding to 53 bits and the
  negative zero are not modelled, overflow to an infinity is (a result at or beyond
  \<open>2^1024 - 2^970\<close> rounds to an infinity).
\<close>

datatype jsnum = NaN | PInf | NInf | Fin rat

definition overflow_bound :: rat where
  "overflow_bound = 2 ^ 1024 - 2 ^ 970"

definition num_of_rat :: "rat \<Rightarrow> jsnum" where
  "num_of_rat q =
     (if overflow_bound \<le> q then PInf else if q \<le> - overflow_bound then NInf else Fin q)"

fun js_neg :: "jsnum \<Rightarrow> jsnum" where
  "js_neg NaN = NaN"
| "js_neg PInf = NInf"
| "js_neg NInf = PInf"
| "js_neg (Fin q) = Fin (- q)"

fun js_add :: "jsnum \<Rightarrow> jsnum \<Rightarrow> jsnum" where
  "js_add NaN _ = NaN"
| "js_add _ NaN = NaN"
| "js_add PInf NInf = NaN"
| "js_add NInf PInf = NaN"
| "js_add PInf _ = PInf"
| "js_add _ PInf = PInf"
| "js_add NInf _ = NInf"
| "js_add _ NInf = NInf"
| "js_add (Fin a) (Fin b) = num_of_rat (a + b)"

definition js_sub :: "jsnum \<Rightarrow> jsnum \<Rightarrow> jsnum" where
  "js_sub a b = js_add a (js_neg b)"

text \<open>The sign of a number that is not NaN: -1, 0 or 1.\<close>

fun js_sign :: "jsnum \<Rightarrow> int" where
  "js_sign NaN = 0"
| "js_sign PInf = 1"
| "js_sign NInf = - 1"
| "js_sign (Fin q) = (if q < 0 then - 1 else if q = 0 then 0 else 1)"

definition inf_of_sign :: "int \<Rightarrow> jsnum" where
  "inf_of_sign s = (if s = 0 then NaN else if s < 0 then NInf else PInf)"

fun js_mul :: "jsnum \<Rightarrow> jsnum \<Rightarrow> jsnum" where
  "js_mul NaN _ = NaN"
| "js_mul _ NaN = NaN"
| "js_mul (Fin a) (Fin b) = num_of_rat (a * b)"
| "js_mul a b = inf_of_sign (js_sign a * js_sign b)"

text \<open>
  Division: a finite non-zero number over zero is an infinity of the dividend's sign (the zero
  is the positive one), zero over zero and infinity over infinity are NaN.
\<close>

fun js_div :: "jsnum \<Rightarrow> jsnum \<Rightarrow> jsnum" where
  "js_div NaN _ = NaN"
| "js_div _ NaN = NaN"
| "js_div (Fin a) (Fin b) = (if b = 0 then inf_of_sign (js_sign (Fin a)) else num_of_rat (a / b))"
| "js_div (Fin a) _ = Fin 0"
| "js_div a (Fin b) = inf_of_sign (js_sign a * (if b < 0 then - 1 else 1))"
| "js_div _ _ = NaN"

text \<open>The relational operators: every comparison with NaN is false.\<close>

fun js_lt :: "jsnum \<Rightarrow> jsnum \<Rightarrow> bool" where
  "js_lt NaN _ = False"
| "js_lt _ NaN = False"
| "js_lt (Fin a) (Fin b) = (a < b)"
| "js_lt PInf _ = False"
| "js_lt _ NInf = False"
| "js_lt _ _ = True"

definition js_eq :: "jsnum \<Rightarrow> jsnum \<Rightarrow> bool" where
  "js_eq a b = (a = b \<and> a \<noteq> NaN)"

definition js_le :: "jsnum \<Rightarrow> jsnum \<Rightarrow> bool" where
  "js_le a b = (js_lt a b \<or> js_eq a b)"

definition js_gt :: "jsnum \<Rightarrow> jsnum \<Rightarrow> bool" where
  "js_gt a b = js_lt b a"

definition js_ge :: "jsnum \<Rightarrow> jsnum \<Rightarrow> bool" where
  "js_ge a b = js_le b a"

text \<open>\<open>Math.min\<close>, \<open>Math.max\<close>, \<open>Math.floor\<close>, \<open>Math.ceil\<close> and \<open>Math.pow(2, n)\<close>.\<close>

definition js_min :: "jsnum \<Rightarrow> jsnum \<Rightarrow> jsnum" where
  "js_min a b = (if a = NaN \<or> b = NaN then NaN else if js_lt b a then b else a)"

definition js_max :: "jsnum \<Rightarrow> jsnum \<Rightarrow> jsnum" where
  "js_max a b = (if a = NaN \<or> b = NaN then NaN else if js_lt a b then b else a)"

fun js_floor :: "jsnum \<Rightarrow> jsnum" where
  "js_floor (Fin q) = Fin (of_int \<lfloor>q\<rfloor>)"
| "js_floor n = n"

fun js_ceil :: "jsnum \<Rightarrow> jsnum" where
  "js_ceil (Fin q) = Fin (of_int \<lceil>q\<rceil>)"
| "js_ceil n = n"

definition js_pow2 :: "nat \<Rightarrow> jsnum" where
  "js_pow2 n = num_of_rat (2 ^ n)"

definition num_of_nat :: "nat \<Rightarrow> jsnum" where
  "num_of_nat n = num_of_rat (of_nat n)"

definition num_of_int :: "int \<Rightarrow> jsnum" where
  "num_of_int i = num_of_rat (of_int i)"

section \<open>Strings and the numbers read from them\<close>

text \<open>
  A string is a list of characters (code units below 256).  \<open>parseInt(s, 10)\<close> and
  \<open>parseFloat(s)\<close> skip leading white space, read an optional sign and the longest prefix
  that is a decimal literal, and ignore what follows; with no digit they give NaN.
\<close>

definition is_ws :: "char \<Rightarrow> bool" where
  "is_ws c = ((of_char c :: nat) \<in> set [9, 10, 11, 12, 13, 32, 160])"

definition is_digit :: "char \<Rightarrow> bool" where
  "is_digit c = (48 \<le> (of_char c :: nat) \<and> (of_char c :: nat) \<le> 57)"

definition digits_val :: "string \<Rightarrow> nat" where
  "digits_val ds = foldl (\<lambda>a c. 10 * a + (of_char c - 48)) 0 ds"

definition take_sign :: "string \<Rightarrow> rat \<times> string" where
  "take_sign s =
     (case s of
        [] \<Rightarrow> (1, [])
      | c # t \<Rightarrow> if c = CHR ''-'' then (- 1, t) else if c = CHR ''+'' then (1, t) else (1, s))"

definition parseInt :: "string \<Rightarrow> jsnum" where
  "parseInt s =
     (let (sgn, s2) = take_sign (dropWhile is_ws s);
          ds = takeWhile is_digit s2
      in if ds = [] then NaN else num_of_rat (sgn * of_nat (digits_val ds)))"

text \<open>The exponent of a decimal literal and what follows it; without digits it is not read.\<close>

definition exponent_part :: "string \<Rightarrow> int \<times> string" where
  "exponent_part r =
     (case r of
        [] \<Rightarrow> (0, [])
      | c # t \<Rightarrow>
          if c = CHR ''e'' \<or> c = CHR ''E'' then
            (let (sg, t2) = take_sign t; ds = takeWhile is_digit t2
             in if ds = [] then (0, r)
                else (if sg < 0 then - int (digits_val ds) else int (digits_val ds),
                      dropWhile is_digit t2))
          else (0, r))"

definition fraction_part :: "string \<Rightarrow> string \<times> string" where
  "fraction_part r =
     (case r of
        [] \<Rightarrow> ([], [])
      | c # t \<Rightarrow>
          if c = CHR ''.'' then (takeWhile is_digit t, dropWhile is_digit t) else ([], r))"

text \<open>A signed decimal literal (or \<open>Infinity\<close>) at the start of a string, and the rest.\<close>

definition scan_number :: "string \<Rightarrow> jsnum \<times> string" where
  "scan_number s =
     (let (sgn, s2) = take_sign s in
      if take 8 s2 = ''Infinity'' then (if sgn < 0 then NInf else PInf, drop 8 s2)
      else
        let ip = takeWhile is_digit s2;
            (fp, r2) = fraction_part (dropWhile is_digit s2)
        in if ip = [] \<and> fp = [] then (NaN, s)
           else
             let (e, r3) = exponent_part r2
             in (num_of_rat
                   (sgn * (of_nat (digits_val ip) + of_nat (digits_val fp) / 10 ^ length fp)
                        * 10 powi e),
                 r3))"

definition parseFloat :: "string \<Rightarrow> jsnum" where
  "parseFloat s = fst (scan_number (dropWhile is_ws s))"

text \<open>
  The conversion of a string to a number (\<open>Number(s)\<close>, applied by the arithmetic and
  relational operators): the whole string, white space at both ends apart, must be a decimal
  literal, and the empty string is 0.  The hexadecimal, octal and binary literals are not
  modelled.
\<close>

definition string_to_number :: "string \<Rightarrow> jsnum" where
  "string_to_number s =
     (let t = rev (dropWhile is_ws (rev (dropWhile is_ws s))) in
      if t = [] then Fin 0
      else case scan_number t of (n, rest) \<Rightarrow> if rest = [] then n else NaN)"

text \<open>
  \<open>Number.prototype.toString\<close>: the model writes the exact decimal expansion of a finite
  number (at most 1100 fractional digits, more than a binary64 value has), where JavaScript
  writes the shortest decimal that reads back as the same number, in exponent form for very
  large and very small ones.  Both read back to the number they were written from.
\<close>

definition digit_char :: "nat \<Rightarrow> char" where
  "digit_char d = (if d < 10 then ''0123456789'' ! d else CHR ''?'')"

function show_nat :: "nat \<Rightarrow> string" where
  "show_nat n = (if n < 10 then [digit_char n] else show_nat (n div 10) @ [digit_char (n mod 10)])"
  by pat_completeness auto
termination
  by (relation "measure (\<lambda>n. n)") auto

declare show_nat.simps [simp del]

function frac_digits :: "nat \<Rightarrow> rat \<Rightarrow> string" where
  "frac_digits n r =
     (if n = 0 \<or> r = 0 then []
      else digit_char (nat \<lfloor>r * 10\<rfloor>) # frac_digits (n - 1) (r * 10 - of_int \<lfloor>r * 10\<rfloor>))"
  by pat_completeness auto
termination
  by (relation "measure (\<lambda>(n, r). n)") auto

declare frac_digits.simps [simp del]

fun num_toString :: "jsnum \<Rightarrow> string" where
  "num_toString NaN = ''NaN''"
| "num_toString PInf = ''Infinity''"
| "num_toString NInf = ''-Infinity''"
| "num_toString (Fin q) =
     (let a = \<bar>q\<bar>; ip = \<lfloor>a\<rfloor>; fr = a - of_int ip
      in (if q < 0 then ''-'' else '''') @ show_nat (nat ip)
         @ (if fr = 0 then '''' else ''.'' @ frac_digits 1100 fr))"

section \<open>JavaScript values\<close>

datatype jsval =
    JUndefined
  | JNull
  | JBool bool
  | JNum jsnum
  | JStr string
  | JArr "jsval list"
  | JObj "(string \<times> jsval) list"

text \<open>Truthiness, and \<open>a || b\<close> with both operands already evaluated.\<close>

fun truthy :: "jsval \<Rightarrow> bool" where
  "truthy JUndefined = False"
| "truthy JNull = False"
| "truthy (JBool b) = b"
| "truthy (JNum n) = (n \<noteq> NaN \<and> n \<noteq> Fin 0)"
| "truthy (JStr s) = (s \<noteq> [])"
| "truthy (JArr _) = True"
| "truthy (JObj _) = True"

definition js_or :: "jsval \<Rightarrow> jsval \<Rightarrow> jsval" where
  "js_or a b = (if truthy a then a else b)"

definition nullish :: "jsval \<Rightarrow> bool" where
  "nullish v = (v = JUndefined \<or> v = JNull)"

fun is_string :: "jsval \<Rightarrow> bool" where
  "is_string (JStr _) = True"
| "is_string _ = False"

text \<open>
  Reading a property of a value that is neither null nor undefined.  An object is its list of
  own properties in insertion order (keys distinct); of the inherited properties only
  \<open>length\<close> is read by this program, and \<open>toString\<close> is called (see the string
  conversion below).
\<close>

fun js_get :: "jsval \<Rightarrow> string \<Rightarrow> jsval" where
  "js_get (JObj kvs) k = (case map_of kvs k of Some v \<Rightarrow> v | None \<Rightarrow> JUndefined)"
| "js_get (JArr xs) k = (if k = ''length'' then JNum (num_of_nat (length xs)) else JUndefined)"
| "js_get (JStr s) k = (if k = ''length'' then JNum (num_of_nat (length s)) else JUndefined)"
| "js_get _ k = JUndefined"

text \<open>Optional chaining \<open>v?.k\<close>.\<close>

definition opt_get :: "jsval \<Rightarrow> string \<Rightarrow> jsval" where
  "opt_get v k = (if nullish v then JUndefined else js_get v k)"

text \<open>The assignment \<open>o[k] = v\<close> on a list of own properties: in place, or appended.\<close>

definition obj_set :: "(string \<times> jsval) list \<Rightarrow> string \<Rightarrow> jsval \<Rightarrow> (string \<times> jsval) list" where
  "obj_set kvs k v = AList.update k v kvs"

text \<open>The own enumerable properties that the spread \<open>{...v}\<close> copies.\<close>

fun own_entries :: "jsval \<Rightarrow> (string \<times> jsval) list" where
  "own_entries (JObj kvs) = kvs"
| "own_entries (JArr xs) = zip (map show_nat [0..<length xs]) xs"
| "own_entries (JStr s) = zip (map show_nat [0..<length s]) (map (\<lambda>c. JStr [c]) s)"
| "own_entries _ = []"

text \<open>
  Errors as values.  A TypeError stands for any TypeError, whatever its message.
\<close>

datatype error = Error string | TypeError

text \<open>
  String conversion (\<open>String(v)\<close>, a template literal, the argument of \<open>parseFloat\<close>).
  A value that came out of \<open>JSON.parse\<close> holds no function, so an object with an own
  property named \<open>toString\<close> has no callable one: its conversion throws a TypeError, and so
  does the conversion of an array that holds such an object, since the array joins the
  conversions of its elements (null and undefined elements give the empty string).  Every other
  object is \<open>[object Object]\<close>.
\<close>

fun stringifiable :: "jsval \<Rightarrow> bool" where
  "stringifiable (JObj kvs) = (map_of kvs ''toString'' = None)"
| "stringifiable (JArr xs) = list_all stringifiable xs"
| "stringifiable _ = True"

fun join_comma :: "string list \<Rightarrow> string" where
  "join_comma [] = []"
| "join_comma [s] = s"
| "join_comma (s # t) = s @ '','' @ join_comma t"

text \<open>The string a conversion gives when it does not throw.\<close>

fun string_form :: "jsval \<Rightarrow> string" where
  "string_form JUndefined = ''undefined''"
| "string_form JNull = ''null''"
| "string_form (JBool b) = (if b then ''true'' else ''false'')"
| "string_form (JNum n) = num_toString n"
| "string_form (JStr s) = s"
| "string_form (JArr xs) =
     join_comma (map (\<lambda>x. if x = JUndefined \<or> x = JNull then [] else string_form x) xs)"
| "string_form (JObj _) = ''[object Object]''"

definition js_toString :: "jsval \<Rightarrow> error + string" where
  "js_toString v = (if stringifiable v then Inr (string_form v) else Inl TypeError)"

text \<open>
  The method call \<open>v.toString()\<close>: a TypeError on null and undefined, which have no
  properties, and on an own \<open>toString\<close> that is not a function; else the conversion.
\<close>

definition toString_method :: "jsval \<Rightarrow> error + string" where
  "toString_method v = (if nullish v then Inl TypeError else js_toString v)"

section \<open>The token bucket (rateLimiter.ts)\<close>

text \<open>
  The fields of the class: three JavaScript numbers and \<open>lastRefill\<close>, a reading of
  \<open>Date.now()\<close>, which is an integer number of milliseconds.
\<close>

record TokenBucketLimiter =
  tokens :: jsnum
  lastRefill :: int
  capacity :: jsnum
  refillRate :: jsnum

definition new_TokenBucketLimiter :: "int \<Rightarrow> jsnum \<Rightarrow> jsnum \<Rightarrow> TokenBucketLimiter" where
  "new_TokenBucketLimiter now cap rate =
     \<lparr>tokens = cap, lastRefill = now, capacity = cap, refillRate = rate\<rparr>"

definition refill :: "int \<Rightarrow> TokenBucketLimiter \<Rightarrow> TokenBucketLimiter" where
  "refill now b =
     (let elapsed = num_of_int (now - lastRefill b);
          tokensToAdd = js_mul elapsed (refillRate b)
      in if js_gt tokensToAdd (Fin 0)
         then b\<lparr>tokens := js_min (capacity b) (js_add (tokens b) tokensToAdd), lastRefill := now\<rparr>
         else b)"

text \<open>
  \<open>waitForToken\<close> is an async function with one \<open>await\<close>: it runs in two sections, each
  without interruption under the cooperative scheduler.  The first section either takes a
  token and returns, or computes the waiting time and suspends; the second section runs when
  the timer fires.
\<close>

datatype wait_outcome = Granted | Suspended jsnum

definition waitForToken_enter :: "int \<Rightarrow> TokenBucketLimiter \<Rightarrow> wait_outcome \<times> TokenBucketLimiter" where
  "waitForToken_enter now b =
     (let b1 = refill now b in
      if js_ge (tokens b1) (Fin 1) then (Granted, b1\<lparr>tokens := js_sub (tokens b1) (Fin 1)\<rparr>)
      else
        let tokensNeeded = js_sub (Fin 1) (tokens b1);
            waitTime = js_ceil (js_div tokensNeeded (refillRate b1))
        in (Suspended waitTime, b1))"

definition waitForToken_resume :: "int \<Rightarrow> TokenBucketLimiter \<Rightarrow> TokenBucketLimiter" where
  "waitForToken_resume now b = (let b1 = refill now b in b1\<lparr>tokens := js_sub (tokens b1) (Fin 1)\<rparr>)"

text \<open>
  The delay of \<open>setTimeout(f, ms)\<close> in Node: a delay that is not between 1 and \<open>2^31 - 1\<close>
  (NaN and the infinities too) is 1, and a fraction is cut off.
\<close>

definition timer_delay :: "jsnum \<Rightarrow> int" where
  "timer_delay ms =
     (case ms of Fin q \<Rightarrow> if 1 \<le> q \<and> q \<le> 2147483647 then \<lfloor>q\<rfloor> else 1 | _ \<Rightarrow> 1)"

text \<open>
  Several callers of one limiter.  A schedule is the list of sections the event loop runs with
  the clock reading at each: a new call, or the wake-up of a suspended caller.  The state is
  the bucket, the time of the last section and the deadlines of the timers not yet fired.  A
  schedule that goes back in time, or wakes a caller before its timer is due, is not one the
  event loop can run (\<open>None\<close>).
\<close>

datatype section_event = Call int | Wake int

fun run_section ::
  "section_event \<Rightarrow> TokenBucketLimiter \<times> int \<times> int list \<Rightarrow> (TokenBucketLimiter \<times> int \<times> int list) option"
where
  "run_section (Call t) (b, clock, pending) =
     (if t < clock then None
      else case waitForToken_enter t b of
             (Granted, b') \<Rightarrow> Some (b', t, pending)
           | (Suspended waitTime, b') \<Rightarrow> Some (b', t, pending @ [t + timer_delay waitTime]))"
| "run_section (Wake t) (b, clock, pending) =
     (if t < clock then None
      else case filter (\<lambda>d. d \<le> t) pending of
             [] \<Rightarrow> None
           | d # _ \<Rightarrow> Some (waitForToken_resume t b, t, remove1 d pending))"

fun run_schedule ::
  "section_event list \<Rightarrow> TokenBucketLimiter \<times> int \<times> int list \<Rightarrow> (TokenBucketLimiter \<times> int \<times> int list) option"
where
  "run_schedule [] st = Some st"
| "run_schedule (e # es) st =
     (case run_section e st of None \<Rightarrow> None | Some st' \<Rightarrow> run_schedule es st')"

text \<open>
  The registry of limiters, one per provider name, and the module's global instance, built
  when the module is loaded from \<open>PROVIDER_RATE_LIMIT_CAPACITY\<close> (default 30) and
  \<open>PROVIDER_RATE_LIMIT_REFILL_RATE\<close> (default 0.5).  A limiter is a shared object: the
  registry is the store that holds it and the provider name is its address.
\<close>

type_synonym environment = "string \<rightharpoonup> string"

text \<open>\<open>process.env.NAME || dflt\<close>: an unset or empty variable gives the default.\<close>

definition env_or :: "environment \<Rightarrow> string \<Rightarrow> string \<Rightarrow> string" where
  "env_or env name dflt = (case env name of None \<Rightarrow> dflt | Some v \<Rightarrow> if v = [] then dflt else v)"

record ProviderRateLimiter =
  limiters :: "string \<rightharpoonup> TokenBucketLimiter"
  defaultCapacity :: jsnum
  defaultRefillRate :: jsnum

definition providerRateLimiter :: "environment \<Rightarrow> ProviderRateLimiter" where
  "providerRateLimiter env =
     \<lparr>limiters = Map.empty,
      defaultCapacity = parseInt (env_or env ''PROVIDER_RATE_LIMIT_CAPACITY'' ''30''),
      defaultRefillRate = parseFloat (env_or env ''PROVIDER_RATE_LIMIT_REFILL_RATE'' ''0.5'')\<rparr>"

definition getLimiter :: "int \<Rightarrow> string \<Rightarrow> ProviderRateLimiter \<Rightarrow> ProviderRateLimiter" where
  "getLimiter now name reg =
     (if limiters reg name = None
      then reg\<lparr>limiters := (limiters reg)
             (name \<mapsto> new_TokenBucketLimiter now (defaultCapacity reg) (defaultRefillRate reg))\<rparr>
      else reg)"

section \<open>The world around the provider\<close>

text \<open>
  What the program only passes on is a parameter: the results of the built-in functions, and
  of \<open>bboxToCenterAndRadius\<close> of \<open>realtorHelper.ts\<close>, which \<open>fetchPage\<close> applies to
  the bounding box of a validated query (four numbers): the centre of the box and half its
  haversine diagonal, computed with the functions of \<open>Math\<close>, only enter the query of the
  request.
  \<open>random k\<close> is the value of the k-th call of \<open>Math.random()\<close>.
\<close>

record externals =
  sha256 :: "string \<Rightarrow> string"
  json_stringify :: "jsval \<Rightarrow> string"
  json_parse :: "string \<Rightarrow> error + jsval"
  date_parse :: "string \<Rightarrow> jsnum"
  bboxToCenterAndRadius :: "jsval \<Rightarrow> jsnum \<times> jsnum \<times> jsnum"
  random :: "nat \<Rightarrow> rat"
  base36 :: "rat \<Rightarrow> string"

text \<open>
  An HTTP response: status, headers (names in lower case, as \<open>Headers.get\<close> compares them)
  and body.  A call of \<open>fetch\<close> settles with a response or rejects with an error.
\<close>

record response =
  status :: nat
  headers :: "(string \<times> string) list"
  body :: string

datatype fetch_outcome = Responds response | Rejects error

definition ok :: "response \<Rightarrow> bool" where
  "ok r = (200 \<le> status r \<and> status r \<le> 299)"

definition lower_char :: "char \<Rightarrow> char" where
  "lower_char c =
     (case map_of (zip ''ABCDEFGHIJKLMNOPQRSTUVWXYZ'' ''abcdefghijklmnopqrstuvwxyz'') c of
        Some l \<Rightarrow> l
      | None \<Rightarrow> c)"

definition header_get :: "response \<Rightarrow> string \<Rightarrow> string option" where
  "header_get r name = map_of (headers r) (map lower_char name)"

text \<open>\<open>response.headers.get(a) || response.headers.get(b)\<close>: the first non-empty value.\<close>

definition header_or :: "response \<Rightarrow> string \<Rightarrow> string \<Rightarrow> string option" where
  "header_or r a b =
     (case header_get r a of
        Some v \<Rightarrow> if v = [] then header_get r b else Some v
      | None \<Rightarrow> header_get r b)"

record request =
  url :: string
  query :: "(string \<times> string) list"
  request_headers :: "(string \<times> string) list"

text \<open>
  The cache table \<open>realtorRawCache\<close> behind Prisma: rows by hash, and for each of the three
  operations the program uses whether the collaborator raises an error on it.
\<close>

record cache_row =
  payload :: string
  createdAt :: int

datatype cache_op = FindUnique | Delete | Upsert

text \<open>
  The state of the world: the clock (milliseconds), the registry of limiters, what the upstream
  API will answer to the coming calls of \<open>fetch\<close> in order (a call beyond the list never
  settles), the requests sent so far, the cache with the operations run on it so far, and the
  number of calls of \<open>Math.random\<close> so far.  Time passes only in timers, and a timer fires
  exactly when it is due.
\<close>

record world =
  clock :: int
  registry :: ProviderRateLimiter
  upstream :: "fetch_outcome list"
  requests :: "request list"
  cache :: "string \<rightharpoonup> cache_row"
  cache_fault :: "cache_op \<Rightarrow> error option"
  cache_log :: "(cache_op \<times> string) list"
  rnd :: nat

definition sleep :: "jsnum \<Rightarrow> world \<Rightarrow> world" where
  "sleep ms w = w\<lparr>clock := clock w + timer_delay ms\<rparr>"

text \<open>
  \<open>await this.limiter.waitForToken()\<close> by one caller: the first section, and when it
  suspends, the timer and the second section.  The limiter is the one the registry holds under
  the name; the constructor has registered it, so the case of a name without a limiter is
  never reached.
\<close>

definition limiter_waitForToken :: "string \<Rightarrow> world \<Rightarrow> world" where
  "limiter_waitForToken name w =
     (case limiters (registry w) name of
        None \<Rightarrow> w
      | Some b \<Rightarrow>
          (case waitForToken_enter (clock w) b of
             (Granted, b') \<Rightarrow>
               w\<lparr>registry := (registry w)\<lparr>limiters := (limiters (registry w))(name \<mapsto> b')\<rparr>\<rparr>
           | (Suspended waitTime, b1) \<Rightarrow>
               (let t = clock w + timer_delay waitTime
                in w\<lparr>clock := t,
                     registry := (registry w)\<lparr>limiters :=
                       (limiters (registry w))(name \<mapsto> waitForToken_resume t b1)\<rparr>\<rparr>)))"

section \<open>RealtorProvider: construction and fetchPage\<close>

record RealtorProvider =
  apiKey :: string
  ttlHours :: jsnum
  initialBackoffMs :: jsnum
  maxRetries :: jsnum
  limiter :: string

definition providerName :: string where
  "providerName = ''realtor16''"

definition baseUrl :: string where
  "baseUrl = ''https://realtor16.p.rapidapi.com''"

text \<open>The constructor; its effect on the world is the lazy creation of the limiter.\<close>

definition new_RealtorProvider :: "environment \<Rightarrow> world \<Rightarrow> RealtorProvider \<times> world" where
  "new_RealtorProvider env w =
     (let maxCallsPerMin = parseInt (env_or env ''REALTOR_MAX_CALLS_PER_MIN'' ''30'')
      in (\<lparr>apiKey = env_or env ''REALTOR_API_KEY'' [],
           ttlHours = parseInt (env_or env ''REALTOR_TTL_HOURS'' ''24''),
           initialBackoffMs = parseInt (env_or env ''REALTOR_INITIAL_BACKOFF_MS'' ''500''),
           maxRetries = parseInt (env_or env ''REALTOR_MAX_RETRIES'' ''5''),
           limiter = providerName\<rparr>,
          w\<lparr>registry := getLimiter (clock w) providerName (registry w)\<rparr>))"

text \<open>
  The request of \<open>fetchPage\<close>: the endpoint and the query parameters before they are
  serialised into the URL; \<open>None\<close> where \<open>fetchPage\<close> returns null without a request;
  an error where reading a property of the parameters (null or undefined) or the conversion
  of a parameter to a string throws.
\<close>

definition radius_or_10 :: "jsval \<Rightarrow> error + string" where
  "radius_or_10 params =
     (let r = js_get params ''radius'' in
      if nullish r then Inr ''10''
      else case toString_method r of
             Inl e \<Rightarrow> Inl e
           | Inr s \<Rightarrow> Inr (if s = [] then ''10'' else s))"

definition build_request ::
  "externals \<Rightarrow> RealtorProvider \<Rightarrow> jsval \<Rightarrow> nat \<Rightarrow> error + request option"
where
  "build_request ext p params page =
     (let queryParams = [(''page'', show_nat page), (''limit'', ''40'')];
          hdrs = [(''X-RapidAPI-Key'', apiKey p), (''X-RapidAPI-Host'', ''realtor16.p.rapidapi.com'')]
      in if nullish params then Inl TypeError
         else if truthy (js_get params ''bbox'') then
           (case bboxToCenterAndRadius ext (js_get params ''bbox'') of
              (lat, lon, radiusKm) \<Rightarrow>
                Inr (Some \<lparr>url = baseUrl @ ''/properties/coordinates'',
                      query = queryParams @ [(''lat'', num_toString lat), (''lon'', num_toString lon),
                                            (''radius'', num_toString radiusKm)],
                      request_headers = hdrs\<rparr>))
         else if truthy (js_get params ''city'') \<and> truthy (js_get params ''state'') then
           (case js_toString (js_get params ''city'') of
              Inl e \<Rightarrow> Inl e
            | Inr city \<Rightarrow>
                (case js_toString (js_get params ''state'') of
                   Inl e \<Rightarrow> Inl e
                 | Inr state \<Rightarrow>
                     (case radius_or_10 params of
                        Inl e \<Rightarrow> Inl e
                      | Inr radius \<Rightarrow>
                          Inr (Some \<lparr>url = baseUrl @ ''/properties/city'',
                                query = queryParams @ [(''city'', city), (''state_code'', state),
                                                      (''radius'', radius)],
                                request_headers = hdrs\<rparr>))))
         else if truthy (js_get params ''zip'') then
           (case js_toString (js_get params ''zip'') of
              Inl e \<Rightarrow> Inl e
            | Inr zip_code \<Rightarrow>
                (case radius_or_10 params of
                   Inl e \<Rightarrow> Inl e
                 | Inr radius \<Rightarrow>
                     Inr (Some \<lparr>url = baseUrl @ ''/properties/zip'',
                           query = queryParams @ [(''zip_code'', zip_code), (''radius'', radius)],
                           request_headers = hdrs\<rparr>)))
         else Inr None)"

text \<open>
  The waiting time after a 429: from \<open>Retry-After\<close> (seconds, or a date) when the header is
  there, else the exponential backoff capped at 8000 ms plus a random jitter below 200 ms.
\<close>

definition backoff_with_jitter :: "externals \<Rightarrow> RealtorProvider \<Rightarrow> nat \<Rightarrow> world \<Rightarrow> jsnum \<times> world" where
  "backoff_with_jitter ext p attempt w =
     (js_add (js_min (Fin 8000) (js_mul (initialBackoffMs p) (js_pow2 attempt)))
             (js_mul (Fin (random ext (rnd w))) (Fin 200)),
      w\<lparr>rnd := Suc (rnd w)\<rparr>)"

definition retry_wait :: "externals \<Rightarrow> RealtorProvider \<Rightarrow> nat \<Rightarrow> response \<Rightarrow> world \<Rightarrow> jsnum \<times> world" where
  "retry_wait ext p attempt r w =
     (case header_or r ''retry-after'' ''Retry-After'' of
        None \<Rightarrow> backoff_with_jitter ext p attempt w
      | Some retryAfter \<Rightarrow>
          (if retryAfter = [] then backoff_with_jitter ext p attempt w
           else
             (let waitTime = parseInt retryAfter;
                  waitTime' =
                    (if waitTime = NaN
                     then js_max (Fin 0)
                            (js_ceil (js_div (js_sub (date_parse ext retryAfter) (num_of_int (clock w)))
                                             (Fin 1000)))
                     else waitTime)
              in (js_mul waitTime' (Fin 1000), w))))"

text \<open>
  One pass through the body of the \<open>try\<close> block, after \<open>fetch\<close> has settled: it returns the
  parsed body, or reaches \<open>continue\<close> with the time to sleep first, or throws, and every throw
  inside the block lands in the \<open>catch\<close> clause of the same iteration.
\<close>

datatype try_result = Returns jsval | Continues jsnum | Caught error

definition try_body ::
  "externals \<Rightarrow> RealtorProvider \<Rightarrow> nat \<Rightarrow> fetch_outcome \<Rightarrow> world \<Rightarrow> try_result \<times> world"
where
  "try_body ext p attempt outcome w =
     (case outcome of
        Rejects e \<Rightarrow> (Caught e, w)
      | Responds r \<Rightarrow>
          if status r = 429 then
            (case retry_wait ext p attempt r w of
               (waitTime, w') \<Rightarrow>
                 if js_lt (num_of_nat attempt) (maxRetries p) then (Continues waitTime, w')
                 else (Caught (Error (''RapidAPI responded with 429 and max retries (''
                                       @ num_toString (maxRetries p) @ '') reached.'')), w'))
          else if \<not> ok r then
            (Caught (Error (''RapidAPI responded with '' @ show_nat (status r))), w)
          else
            (case json_parse ext (body r) of
               Inl e \<Rightarrow> (Caught e, w)
             | Inr data \<Rightarrow> (Returns data, w)))"

text \<open>
  The \<open>for\<close> loop of \<open>fetchPage\<close>, from \<open>attempt\<close> on, with the answers the upstream will
  give.  It returns the result, the answers not used and the world; \<open>None\<close> when a call of
  \<open>fetch\<close> never settles.
\<close>

definition loop_exit :: "RealtorProvider \<Rightarrow> nat \<Rightarrow> error option \<Rightarrow> error" where
  "loop_exit p page lastError =
     (case lastError of
        Some e \<Rightarrow> e
      | None \<Rightarrow> Error (''Failed to fetch page '' @ show_nat page @ '' after ''
                        @ num_toString (maxRetries p) @ '' retries''))"

fun fetchLoop ::
  "externals \<Rightarrow> RealtorProvider \<Rightarrow> request \<Rightarrow> nat \<Rightarrow> nat \<Rightarrow> error option \<Rightarrow> fetch_outcome list \<Rightarrow> world
     \<Rightarrow> ((error + jsval) \<times> fetch_outcome list \<times> world) option"
where
  "fetchLoop ext p rq page attempt lastError [] w =
     (if js_le (num_of_nat attempt) (maxRetries p) then None
      else Some (Inl (loop_exit p page lastError), [], w))"
| "fetchLoop ext p rq page attempt lastError (outcome # rest) w =
     (if js_le (num_of_nat attempt) (maxRetries p) then
        (let w1 = limiter_waitForToken (limiter p) w;
             w2 = w1\<lparr>requests := requests w1 @ [rq]\<rparr>
         in case try_body ext p attempt outcome w2 of
              (Returns data, w3) \<Rightarrow> Some (Inr data, rest, w3)
            | (Continues waitTime, w3) \<Rightarrow>
                fetchLoop ext p rq page (Suc attempt) lastError rest (sleep waitTime w3)
            | (Caught e, w3) \<Rightarrow>
                if js_eq (num_of_nat attempt) (maxRetries p) then Some (Inl e, rest, w3)
                else fetchLoop ext p rq page (Suc attempt) (Some e) rest
                       (sleep (js_mul (initialBackoffMs p) (js_pow2 attempt)) w3))
      else Some (Inl (loop_exit p page lastError), outcome # rest, w))"

definition fetchPage ::
  "externals \<Rightarrow> RealtorProvider \<Rightarrow> jsval \<Rightarrow> nat \<Rightarrow> world \<Rightarrow> ((error + jsval) \<times> world) option"
where
  "fetchPage ext p params page w =
     (case build_request ext p params page of
        Inl e \<Rightarrow> Some (Inl e, w)
      | Inr None \<Rightarrow> Some (Inr JNull, w)
      | Inr (Some rq) \<Rightarrow>
          (case fetchLoop ext p rq page 0 None (upstream w) w of
             None \<Rightarrow> None
           | Some (res, rest, w') \<Rightarrow> Some (res, w'\<lparr>upstream := rest\<rparr>)))"

section \<open>RealtorProvider: transformListing and computeHash\<close>

text \<open>\<open>x || 0\<close> on a number: NaN and zero give 0.\<close>

definition num_or_zero :: "jsnum \<Rightarrow> jsnum" where
  "num_or_zero n = (if truthy (JNum n) then n else Fin 0)"

text \<open>
  The conversion of a value to a number.  An object or an array is first converted to a
  primitive: the inherited \<open>valueOf\<close> returns the object itself, so the string conversion
  decides, and throws where that one throws.
\<close>

fun js_ToNumber :: "jsval \<Rightarrow> error + jsnum" where
  "js_ToNumber JUndefined = Inr NaN"
| "js_ToNumber JNull = Inr (Fin 0)"
| "js_ToNumber (JBool b) = Inr (if b then Fin 1 else Fin 0)"
| "js_ToNumber (JNum n) = Inr n"
| "js_ToNumber (JStr s) = Inr (string_to_number s)"
| "js_ToNumber (JArr xs) =
     (case js_toString (JArr xs) of Inl e \<Rightarrow> Inl e | Inr s \<Rightarrow> Inr (string_to_number s))"
| "js_ToNumber (JObj kvs) =
     (case js_toString (JObj kvs) of Inl e \<Rightarrow> Inl e | Inr s \<Rightarrow> Inr (string_to_number s))"

definition epsilon :: jsnum where
  "epsilon = Fin (1 / 10000)"

definition position :: "jsnum \<Rightarrow> jsnum \<Rightarrow> jsval" where
  "position x y = JArr [JNum x, JNum y]"

text \<open>
  Lines 291 and 292: the price from the raw value.  A string loses every character that is
  not a digit or a dot; any other value is asked for its \<open>toString()\<close>, which throws where
  the value has none that can be called.
\<close>

definition cleanedPrice :: "jsval \<Rightarrow> error + string" where
  "cleanedPrice rawPrice =
     (case rawPrice of
        JStr s \<Rightarrow> Inr (filter (\<lambda>c. is_digit c \<or> c = CHR ''.'') s)
      | _ \<Rightarrow> toString_method rawPrice)"

text \<open>The cleaned price where line 291 does not throw.\<close>

definition cleaned_form :: "jsval \<Rightarrow> string" where
  "cleaned_form rawPrice =
     (case rawPrice of
        JStr s \<Rightarrow> filter (\<lambda>c. is_digit c \<or> c = CHR ''.'') s
      | _ \<Rightarrow> string_form rawPrice)"

definition price_of :: "jsval \<Rightarrow> error + jsnum" where
  "price_of rawPrice =
     (case cleanedPrice rawPrice of
        Inl e \<Rightarrow> Inl e
      | Inr cleaned \<Rightarrow> Inr (js_floor (num_or_zero (parseFloat cleaned))))"

text \<open>
  Lines 270 and 271: the latitude and the longitude under one of their three spellings, the
  first that is not falsy.
\<close>

definition coordinate_of :: "jsval \<Rightarrow> jsval" where
  "coordinate_of listing = opt_get (opt_get (js_get listing ''location'') ''address'') ''coordinate''"

definition latVal_of :: "jsval \<Rightarrow> jsval" where
  "latVal_of listing =
     js_or (js_or (js_get listing ''latitude'') (js_get listing ''lat''))
           (opt_get (coordinate_of listing) ''lat'')"

definition lonVal_of :: "jsval \<Rightarrow> jsval" where
  "lonVal_of listing =
     js_or (js_or (js_get listing ''longitude'') (js_get listing ''lon''))
           (opt_get (coordinate_of listing) ''lon'')"

text \<open>Line 290: \<open>listing.price || listing.list_price || '0'\<close>.\<close>

definition rawPrice_of :: "jsval \<Rightarrow> jsval" where
  "rawPrice_of listing =
     js_or (js_or (js_get listing ''price'') (js_get listing ''list_price'')) (JStr ''0'')"

text \<open>Lines 277 and 302: \<open>listing.listing_id || listing.id\<close>.\<close>

definition given_id_of :: "jsval \<Rightarrow> jsval" where
  "given_id_of listing = js_or (js_get listing ''listing_id'') (js_get listing ''id'')"

text \<open>
  \<open>transformListing\<close>, with the number of calls of \<open>Math.random\<close> before and after.  It
  throws a TypeError
  \<^item> at the first property read, on a listing that is null or undefined;
  \<^item> at \<open>parseFloat(latVal)\<close> and \<open>parseFloat(lonVal)\<close> (lines 273 and 274), which convert
    their argument to a string;
  \<^item> in the warning of line 277, written when a coordinate is NaN, which converts the
    identifier to a string;
  \<^item> at \<open>rawPrice.toString()\<close> (line 291);
  \<^item> at the \<open>toString()\<close> of the identifier (line 302).

  \<open>Math.random\<close> is called only where the listing has no identifier, and then nothing
  after it throws.
\<close>

definition transformListing :: "externals \<Rightarrow> nat \<Rightarrow> jsval \<Rightarrow> (error + jsval) \<times> nat" where
  "transformListing ext k listing =
     (if nullish listing then (Inl TypeError, k)
      else
        let latVal = latVal_of listing;
            lonVal = lonVal_of listing
        in case js_toString latVal of
             Inl e \<Rightarrow> (Inl e, k)
           | Inr latStr \<Rightarrow>
        (case js_toString lonVal of
             Inl e \<Rightarrow> (Inl e, k)
           | Inr lonStr \<Rightarrow>
        (let lat = parseFloat latStr;
             lon = parseFloat lonStr;
             given_id = given_id_of listing
         in case (if lat = NaN \<or> lon = NaN then js_toString given_id else Inr []) of
              Inl e \<Rightarrow> (Inl e, k)
            | Inr warning \<Rightarrow>
        (let d = epsilon;
             coordinates = JArr [JArr
               [position (js_sub lon d) (js_sub lat d),
                position (js_add lon d) (js_sub lat d),
                position (js_add lon d) (js_add lat d),
                position (js_sub lon d) (js_add lat d),
                position (js_sub lon d) (js_sub lat d)]];
             rawPrice = rawPrice_of listing
         in case price_of rawPrice of
              Inl e \<Rightarrow> (Inl e, k)
            | Inr price \<Rightarrow>
        (case (if truthy given_id then (toString_method given_id, k)
               else (Inr (take 9 (drop 2 (base36 ext (random ext k)))), Suc k)) of
              (Inl e, k') \<Rightarrow> (Inl e, k')
            | (Inr listing_id, k') \<Rightarrow>
        (let beds = (case js_get listing ''beds'' of
                       JStr s \<Rightarrow> JNum (num_or_zero (parseInt s))
                     | v \<Rightarrow> js_or v (JNum (Fin 0)));
             baths = (case js_get listing ''baths'' of
                        JStr s \<Rightarrow> JNum (num_or_zero (parseFloat s))
                      | v \<Rightarrow> js_or v (JNum (Fin 0)));
             properties =
               obj_set (obj_set (obj_set (obj_set (obj_set (own_entries listing)
                 ''listing_id'' (JStr listing_id))
                 ''price'' (JNum price))
                 ''beds'' beds)
                 ''baths'' baths)
                 ''source'' (JStr ''realtor16'')
         in (Inr (JObj
               [(''type'', JStr ''Feature''),
                (''geometry'', JObj [(''type'', JStr ''Polygon''), (''coordinates'', coordinates)]),
                (''properties'', JObj properties)]),
             k')))))))"

text \<open>The values that are not objects: their conversion to a string never throws.\<close>

fun primitive :: "jsval \<Rightarrow> bool" where
  "primitive (JArr _) = False"
| "primitive (JObj _) = False"
| "primitive _ = True"

text \<open>
  The listings on which no conversion of \<open>transformListing\<close> throws: the coordinates,
  the identifier and the raw price, whichever of their spellings is read, have a string form.
\<close>

definition convertible :: "jsval \<Rightarrow> bool" where
  "convertible listing =
     (\<not> nullish listing
      \<and> stringifiable (latVal_of listing) \<and> stringifiable (lonVal_of listing)
      \<and> stringifiable (given_id_of listing) \<and> stringifiable (rawPrice_of listing))"

text \<open>
  What the claims read off a result of \<open>transformListing\<close>: \<open>properties.price\<close> and the
  ring \<open>geometry.coordinates[0]\<close> (undefined and empty when the call threw).
\<close>

definition properties_price :: "(error + jsval) \<times> nat \<Rightarrow> jsval" where
  "properties_price res =
     (case fst res of
        Inl e \<Rightarrow> JUndefined
      | Inr feature \<Rightarrow> js_get (js_get feature ''properties'') ''price'')"

definition exterior_ring :: "(error + jsval) \<times> nat \<Rightarrow> jsval list" where
  "exterior_ring res =
     (case fst res of
        Inl e \<Rightarrow> []
      | Inr feature \<Rightarrow>
          (case js_get (js_get feature ''geometry'') ''coordinates'' of
             JArr (JArr ring # others) \<Rightarrow> ring
           | _ \<Rightarrow> []))"

text \<open>
  The properties the claims ask of these: a price that is a whole number not below zero; a
  ring that is a valid closed polygon of five positions (each a pair of finite numbers, the
  last equal to the first as numbers compare).
\<close>

fun is_nonneg_integer :: "jsval \<Rightarrow> bool" where
  "is_nonneg_integer (JNum (Fin q)) = (0 \<le> q \<and> of_int \<lfloor>q\<rfloor> = q)"
| "is_nonneg_integer _ = False"

fun is_position :: "jsval \<Rightarrow> bool" where
  "is_position (JArr [JNum (Fin x), JNum (Fin y)]) = True"
| "is_position _ = False"

fun same_position :: "jsval \<Rightarrow> jsval \<Rightarrow> bool" where
  "same_position (JArr [JNum x, JNum y]) (JArr [JNum x', JNum y']) = (js_eq x x' \<and> js_eq y y')"
| "same_position _ _ = False"

definition closed_polygon :: "jsval list \<Rightarrow> bool" where
  "closed_polygon ring =
     (length ring = 5 \<and> list_all is_position ring \<and> same_position (hd ring) (last ring))"

text \<open>A string whose first character after the white space is a minus sign.\<close>

definition signed :: "string \<Rightarrow> bool" where
  "signed s = (case dropWhile is_ws s of [] \<Rightarrow> False | c # t \<Rightarrow> c = CHR ''-'')"

text \<open>
  The raw prices whose cleaned form is not signed: every string (the minus sign is stripped
  with the rest), every boolean and object, a number that is not below zero, an array whose
  string form is not signed.
\<close>

fun unsigned_price :: "jsval \<Rightarrow> bool" where
  "unsigned_price (JNum n) = (\<not> js_lt n (Fin 0))"
| "unsigned_price (JArr xs) = (\<not> signed (string_form (JArr xs)))"
| "unsigned_price _ = True"

text \<open>
  \<open>computeHash\<close>: the keys of the parameter object in sorted order, a new object filled in
  that order, its serialisation, the digest.
\<close>

definition sortedParams :: "jsval \<Rightarrow> (string \<times> jsval) list" where
  "sortedParams params =
     foldl (\<lambda>acc key. obj_set acc key (js_get params key)) []
       (sort (map fst (own_entries params)))"

definition computeHash :: "externals \<Rightarrow> jsval \<Rightarrow> string" where
  "computeHash ext params = sha256 ext (json_stringify ext (JObj (sortedParams params)))"

section \<open>RealtorProvider: search\<close>

text \<open>
  \<open>SearchParamsSchema.safeParse(params).success\<close>: an object whose known fields, where
  present, have the declared types (a number is not NaN, an \<open>int\<close> is a whole number).
\<close>

fun is_number :: "jsval \<Rightarrow> bool" where
  "is_number (JNum n) = (n \<noteq> NaN)"
| "is_number _ = False"

fun is_int :: "jsval \<Rightarrow> bool" where
  "is_int (JNum (Fin q)) = (of_int \<lfloor>q\<rfloor> = q)"
| "is_int _ = False"

fun is_bbox :: "jsval \<Rightarrow> bool" where
  "is_bbox (JArr [a, b, c, d]) = (is_number a \<and> is_number b \<and> is_number c \<and> is_number d)"
| "is_bbox _ = False"

definition optional :: "(jsval \<Rightarrow> bool) \<Rightarrow> jsval \<Rightarrow> bool" where
  "optional check v = (v = JUndefined \<or> check v)"

fun valid_params :: "jsval \<Rightarrow> bool" where
  "valid_params (JObj kvs) =
     (optional is_bbox (js_get (JObj kvs) ''bbox'')
      \<and> optional is_string (js_get (JObj kvs) ''city'')
      \<and> optional is_string (js_get (JObj kvs) ''state'')
      \<and> optional is_string (js_get (JObj kvs) ''zip'')
      \<and> optional is_int (js_get (JObj kvs) ''radius''))"
| "valid_params _ = False"

text \<open>The three operations on the cache table; each is logged, and raises when the
  collaborator is set to fail on it.\<close>

definition cache_findUnique :: "string \<Rightarrow> world \<Rightarrow> (error + cache_row option) \<times> world" where
  "cache_findUnique hash w =
     (let w' = w\<lparr>cache_log := cache_log w @ [(FindUnique, hash)]\<rparr>
      in case cache_fault w FindUnique of
           Some e \<Rightarrow> (Inl e, w')
         | None \<Rightarrow> (Inr (cache w hash), w'))"

definition cache_delete :: "string \<Rightarrow> world \<Rightarrow> (error + unit) \<times> world" where
  "cache_delete hash w =
     (let w' = w\<lparr>cache_log := cache_log w @ [(Delete, hash)]\<rparr>
      in case cache_fault w Delete of
           Some e \<Rightarrow> (Inl e, w')
         | None \<Rightarrow>
             (case cache w hash of
                None \<Rightarrow> (Inl (Error ''Record to delete does not exist.''), w')
              | Some _ \<Rightarrow> (Inr (), w'\<lparr>cache := (cache w)(hash := None)\<rparr>)))"

definition cache_upsert :: "string \<Rightarrow> string \<Rightarrow> world \<Rightarrow> (error + unit) \<times> world" where
  "cache_upsert hash text w =
     (let w' = w\<lparr>cache_log := cache_log w @ [(Upsert, hash)]\<rparr>
      in case cache_fault w Upsert of
           Some e \<Rightarrow> (Inl e, w')
         | None \<Rightarrow> (Inr (), w'\<lparr>cache := (cache w)(hash \<mapsto> \<lparr>payload = text, createdAt = clock w\<rparr>)\<rparr>))"

text \<open>
  \<open>listings.map(...)\<close> with the \<open>try\<close> around each item and the filter of the nulls: a
  listing whose transformation throws is left out.
\<close>

fun transform_all :: "externals \<Rightarrow> nat \<Rightarrow> jsval list \<Rightarrow> jsval list \<times> nat" where
  "transform_all ext k [] = ([], k)"
| "transform_all ext k (l # ls) =
     (case transformListing ext k l of
        (Inl e, k1) \<Rightarrow> transform_all ext k1 ls
      | (Inr feature, k1) \<Rightarrow> (case transform_all ext k1 ls of (fs, k2) \<Rightarrow> (feature # fs, k2)))"

text \<open>
  Lines 112 to 119: the number of pages the response announces; the division converts
  \<open>response.total\<close> to a number.
\<close>

definition totalPages_of :: "jsval \<Rightarrow> error + jsval" where
  "totalPages_of response =
     (let tp = js_or (js_get response ''total_pages'') (js_get response ''totalPages'') in
      if truthy tp then Inr tp
      else if truthy (js_get response ''total'')
           then (case js_ToNumber (js_get response ''total'') of
                   Inl e \<Rightarrow> Inl e
                 | Inr n \<Rightarrow> Inr (JNum (js_ceil (js_div n (Fin 40)))))
           else Inr (JNum (Fin 1)))"

definition listings_of :: "jsval \<Rightarrow> jsval" where
  "listings_of response =
     js_or (js_or (js_or (js_get response ''properties'') (js_get response ''listings''))
                  (js_get response ''results''))
           (JArr [])"

text \<open>
  Lines 101 to 105: the query as the message about an empty first page names it; the
  template literals convert the parameters to strings.
\<close>

definition query_summary :: "externals \<Rightarrow> jsval \<Rightarrow> error + string" where
  "query_summary ext params =
     (if nullish params then Inl TypeError
      else if truthy (js_get params ''bbox'')
      then Inr (''bbox '' @ json_stringify ext (js_get params ''bbox''))
      else if truthy (js_get params ''zip'')
      then (case js_toString (js_get params ''zip'') of
              Inl e \<Rightarrow> Inl e
            | Inr zip_code \<Rightarrow> Inr (''zip '' @ zip_code))
      else if truthy (js_get params ''city'')
      then (case js_toString (js_get params ''city'') of
              Inl e \<Rightarrow> Inl e
            | Inr city \<Rightarrow>
                (case js_toString (js_get params ''state'') of
                   Inl e \<Rightarrow> Inl e
                 | Inr state \<Rightarrow> Inr (city @ '', '' @ state)))
      else Inr ''unknown query'')"

text \<open>
  What one page contributes, once \<open>fetchPage\<close> has returned \<open>response\<close>: the loop ends
  (\<open>break\<close>), or throws, or has the page's features and the number of pages.  It throws
  where a message cannot be written because a value in it has no conversion to a string (the
  query at line 104, the number of pages at line 121), where the number of pages cannot be
  computed, and at \<open>listings.map\<close> on a value that is not an array.
\<close>

datatype page_result = Break | Throws error | Page "jsval list" jsval nat

definition page_step :: "externals \<Rightarrow> nat \<Rightarrow> jsval \<Rightarrow> nat \<Rightarrow> jsval \<Rightarrow> page_result" where
  "page_step ext k params currentPage response =
     (if \<not> truthy response then Break
      else
        let listings = listings_of response in
        if js_get listings ''length'' = JNum (Fin 0) then
          (if currentPage = 1
           then (case query_summary ext params of Inl e \<Rightarrow> Throws e | Inr summary \<Rightarrow> Break)
           else Break)
        else case totalPages_of response of
               Inl e \<Rightarrow> Throws e
             | Inr totalPages \<Rightarrow>
                 if \<not> stringifiable totalPages then Throws TypeError
                 else case listings of
                        JArr ls \<Rightarrow>
                          (case transform_all ext k ls of
                             (transformed, k') \<Rightarrow> Page transformed totalPages k')
                      | _ \<Rightarrow> Throws TypeError)"

lemma fetchLoop_consumes:
  "fetchLoop ext p rq page attempt lastError script w = Some (Inr data, rest, w')
     \<Longrightarrow> length rest < length script"
proof (induction script arbitrary: attempt lastError w)
  case Nil
  then show ?case by (simp split: if_splits)
next
  case (Cons outcome script)
  then show ?case
    by (fastforce simp: Let_def split: if_splits prod.splits try_result.splits)
qed

lemma fetchPage_consumes:
  assumes "fetchPage ext p params page w = Some (Inr response, w')" and "truthy response"
  shows "length (upstream w') < length (upstream w)"
  using assms fetchLoop_consumes
  by (fastforce simp: fetchPage_def split: sum.splits option.splits prod.splits)

text \<open>
  The \<open>do ... while\<close> loop of \<open>search\<close> from page \<open>currentPage\<close> on, with the features
  collected so far.  Every iteration that goes on to the next page has used at least one
  answer of the upstream.
\<close>

function collectAll ::
  "externals \<Rightarrow> RealtorProvider \<Rightarrow> jsval \<Rightarrow> nat \<Rightarrow> jsval list \<Rightarrow> world
     \<Rightarrow> ((error + jsval list) \<times> world) option"
where
  "collectAll ext p params currentPage allFeatures w =
     (case fetchPage ext p params currentPage w of
        None \<Rightarrow> None
      | Some (Inl e, w1) \<Rightarrow> Some (Inl e, w1)
      | Some (Inr response, w1) \<Rightarrow>
          (case page_step ext (rnd w1) params currentPage response of
             Break \<Rightarrow> Some (Inr allFeatures, w1)
           | Throws e \<Rightarrow> Some (Inl e, w1)
           | Page transformed totalPages k' \<Rightarrow>
               (case js_ToNumber totalPages of
                  Inl e \<Rightarrow> Some (Inl e, w1\<lparr>rnd := k'\<rparr>)
                | Inr pages \<Rightarrow>
                    if js_ge (num_of_nat currentPage) pages
                    then Some (Inr (allFeatures @ transformed), w1\<lparr>rnd := k'\<rparr>)
                    else if js_le (num_of_nat (Suc currentPage)) pages
                    then collectAll ext p params (Suc currentPage) (allFeatures @ transformed)
                           (w1\<lparr>rnd := k'\<rparr>)
                    else Some (Inr (allFeatures @ transformed), w1\<lparr>rnd := k'\<rparr>))))"
  by pat_completeness auto
termination
proof (relation "measure (\<lambda>(ext, p, params, currentPage, allFeatures, w). length (upstream w))")
  show "wf (measure (\<lambda>(ext, p, params, currentPage, allFeatures, w). length (upstream w)))"
    by simp
next
  fix ext p params currentPage allFeatures w x2 x y w1 response transformed totalPages k'
  assume "fetchPage ext p params currentPage w = Some x2" and "(x, w1) = x2" and "x = Inr response"
    and "page_step ext (rnd w1) params currentPage response = Page transformed totalPages k'"
  then have "fetchPage ext p params currentPage w = Some (Inr response, w1)" and "truthy response"
    by (auto simp: page_step_def split: if_splits sum.splits)
  then have "length (upstream w1) < length (upstream w)"
    by (rule fetchPage_consumes)
  then show "((ext, p, params, Suc currentPage, allFeatures @ transformed, w1\<lparr>rnd := k'\<rparr>),
              (ext, p, params, currentPage, allFeatures, w))
             \<in> measure (\<lambda>(ext, p, params, currentPage, allFeatures, w). length (upstream w))"
    by simp
qed

declare collectAll.simps [simp del]

text \<open>Steps 2 and 3 of \<open>search\<close>: the fetch sequence, then the cache write when it is not empty.\<close>

definition fetch_and_store ::
  "externals \<Rightarrow> RealtorProvider \<Rightarrow> jsval \<Rightarrow> string \<Rightarrow> world \<Rightarrow> ((error + jsval) \<times> world) option"
where
  "fetch_and_store ext p params hash w =
     (case collectAll ext p params 1 [] w of
        None \<Rightarrow> None
      | Some (Inl e, w1) \<Rightarrow> Some (Inl e, w1)
      | Some (Inr allFeatures, w1) \<Rightarrow>
          if allFeatures \<noteq> [] then
            (case cache_upsert hash (json_stringify ext (JArr allFeatures)) w1 of
               (Inl e, w2) \<Rightarrow> Some (Inl e, w2)
             | (Inr u, w2) \<Rightarrow> Some (Inr (JArr allFeatures), w2))
          else Some (Inr (JArr allFeatures), w1))"

definition ageInHours :: "world \<Rightarrow> cache_row \<Rightarrow> jsnum" where
  "ageInHours w cached = js_div (num_of_int (clock w - createdAt cached)) (Fin (1000 * 60 * 60))"

definition search ::
  "externals \<Rightarrow> RealtorProvider \<Rightarrow> jsval \<Rightarrow> world \<Rightarrow> ((error + jsval) \<times> world) option"
where
  "search ext p params w =
     (if \<not> valid_params params then Some (Inl (Error ''Invalid search parameters''), w)
      else
        let hash = computeHash ext params in
        case cache_findUnique hash w of
          (Inl e, w1) \<Rightarrow> Some (Inl e, w1)
        | (Inr None, w1) \<Rightarrow> fetch_and_store ext p params hash w1
        | (Inr (Some cached), w1) \<Rightarrow>
            if js_lt (ageInHours w1 cached) (ttlHours p) then
              (case json_parse ext (payload cached) of
                 Inl e \<Rightarrow> Some (Inl e, w1)
               | Inr features \<Rightarrow> Some (Inr features, w1))
            else
              (case cache_delete hash w1 of
                 (Inl e, w2) \<Rightarrow> Some (Inl e, w2)
               | (Inr u, w2) \<Rightarrow> fetch_and_store ext p params hash w2))"

section \<open>An instance of the parameters, for evaluation on concrete inputs\<close>

text \<open>
  A serialiser in the manner of \<open>JSON.stringify\<close> (strings are written without escapes), a
  parser that reads back the documents of a finite list, and the identity in place of the
  digest.
\<close>

definition quoted :: "string \<Rightarrow> string" where
  "quoted s = [char_of (34 :: nat)] @ s @ [char_of (34 :: nat)]"

fun show_json :: "jsval \<Rightarrow> string" where
  "show_json JUndefined = ''null''"
| "show_json JNull = ''null''"
| "show_json (JBool b) = (if b then ''true'' else ''false'')"
| "show_json (JNum n) = (case n of Fin q \<Rightarrow> num_toString n | _ \<Rightarrow> ''null'')"
| "show_json (JStr s) = quoted s"
| "show_json (JArr xs) = ''['' @ join_comma (map show_json xs) @ '']''"
| "show_json (JObj kvs) =
     ''{'' @ join_comma (map (\<lambda>kv. quoted (fst kv) @ '':'' @ show_json (snd kv)) kvs) @ ''}''"

definition read_json :: "jsval list \<Rightarrow> string \<Rightarrow> error + jsval" where
  "read_json documents s =
     (case find (\<lambda>d. show_json d = s) documents of
        Some d \<Rightarrow> Inr d
      | None \<Rightarrow> Inl (Error ''Unexpected token in JSON''))"

definition sample_listing :: jsval where
  "sample_listing =
     JObj [(''listing_id'', JStr ''p1''), (''latitude'', JStr ''36''), (''longitude'', JStr ''-86'')]"

definition sample_page :: jsval where
  "sample_page = JObj [(''listings'', JArr [sample_listing]), (''total_pages'', JNum (Fin 1))]"

definition sample_cached :: jsval where
  "sample_cached = JArr [JObj [(''type'', JStr ''Feature'')]]"

definition sample_externals :: externals where
  "sample_externals =
     \<lparr>sha256 = (\<lambda>s. s),
      json_stringify = show_json,
      json_parse = read_json [sample_page, sample_cached],
      date_parse = (\<lambda>s. NaN),
      bboxToCenterAndRadius = (\<lambda>b. (Fin 0, Fin 0, Fin 0)),
      random = (\<lambda>k. 0),
      base36 = (\<lambda>q. ''0'')\<rparr>"

text \<open>
  The world when the module has just been loaded under an environment, with the answers the
  upstream will give: the clock at 0, no limiter yet, an empty cache that works.
\<close>

definition start_world :: "environment \<Rightarrow> fetch_outcome list \<Rightarrow> world" where
  "start_world env answers =
     \<lparr>clock = 0, registry = providerRateLimiter env, upstream = answers, requests = [],
      cache = Map.empty, cache_fault = (\<lambda>operation. None), cache_log = [], rnd = 0\<rparr>"

definition answer :: "nat \<Rightarrow> jsval \<Rightarrow> fetch_outcome" where
  "answer code document = Responds \<lparr>status = code, headers = [], body = show_json document\<rparr>"

definition sample_query :: jsval where
  "sample_query = JObj [(''zip'', JStr ''37201'')]"

definition sample_request :: request where
  "sample_request =
     \<lparr>url = ''https://realtor16.p.rapidapi.com/properties/zip'',
      query = [(''page'', ''1''), (''limit'', ''40''), (''zip_code'', ''37201''), (''radius'', ''10'')],
      request_headers = [(''X-RapidAPI-Key'', []), (''X-RapidAPI-Host'', ''realtor16.p.rapidapi.com'')]\<rparr>"

text \<open>The listing of the specification's example: the coordinate nested under \<open>location\<close>.\<close>

definition spec_listing :: jsval where
  "spec_listing =
     JObj [(''location'', JObj [(''address'', JObj [(''coordinate'',
              JObj [(''lat'', JNum (Fin (73 / 2))), (''lon'', JNum (Fin (- 466 / 5)))])])]),
           (''list_price'', JNum (Fin 250000))]"

text \<open>
  Worlds for the examples: the world after the provider has been constructed under the default
  configuration; the same at a later time with a cache row for the sample query written at
  time 0; a world whose cache raises an error on one of its operations.
\<close>

definition fresh_world :: "fetch_outcome list \<Rightarrow> world" where
  "fresh_world answers = snd (new_RealtorProvider Map.empty (start_world Map.empty answers))"

definition default_provider_record :: RealtorProvider where
  "default_provider_record = fst (new_RealtorProvider Map.empty (start_world Map.empty []))"

definition cached_world :: "int \<Rightarrow> fetch_outcome list \<Rightarrow> world" where
  "cached_world now answers =
     (fresh_world answers)
       \<lparr>clock := now,
        cache := [computeHash sample_externals sample_query
                    \<mapsto> \<lparr>payload = show_json sample_cached, createdAt = 0\<rparr>]\<rparr>"

definition faulty_world :: "cache_op \<Rightarrow> world \<Rightarrow> world" where
  "faulty_world failing w =
     w\<lparr>cache_fault := (\<lambda>operation. if operation = failing then Some (Error ''cache unavailable'')
                                   else None)\<rparr>"

text \<open>A number of calls of \<open>fetchPage\<close> for page 1, one after the other.\<close>

fun fetch_many :: "externals \<Rightarrow> RealtorProvider \<Rightarrow> jsval \<Rightarrow> nat \<Rightarrow> world \<Rightarrow> world option" where
  "fetch_many ext p params 0 w = Some w"
| "fetch_many ext p params (Suc n) w =
     (case fetchPage ext p params 1 w of
        None \<Rightarrow> None
      | Some (res, w') \<Rightarrow> fetch_many ext p params n w')"

section \<open>Evaluation lemmas\<close>

lemma overflow_bound_large: "2 ^ 100 < overflow_bound"
  by (simp add: overflow_bound_def)

lemma num_of_rat_Fin: "\<bar>q\<bar> \<le> 2 ^ 100 \<Longrightarrow> num_of_rat q = Fin q"
  using overflow_bound_large by (auto simp: num_of_rat_def)

lemma floor_rat_numeral [simp]:
  "\<lfloor>(numeral a / numeral b :: rat)\<rfloor> = numeral a div numeral b"
  "\<lfloor>(- numeral a / numeral b :: rat)\<rfloor> = - numeral a div numeral b"
  "\<lfloor>(1 / numeral b :: rat)\<rfloor> = 1 div numeral b"
  using floor_divide_of_int_eq [of "numeral a" "numeral b", where ?'a = rat]
    floor_divide_of_int_eq [of "- numeral a" "numeral b", where ?'a = rat]
    floor_divide_of_int_eq [of 1 "numeral b", where ?'a = rat]
  by simp_all

lemmas number_eval =
  num_of_int_def num_of_nat_def js_pow2_def num_of_rat_Fin js_gt_def js_ge_def js_le_def js_eq_def
  js_min_def js_max_def js_sub_def

lemmas bucket_eval =
  new_TokenBucketLimiter_def waitForToken_enter_def waitForToken_resume_def refill_def
  timer_delay_def Let_def

lemmas parse_eval =
  parseInt_def parseFloat_def scan_number_def take_sign_def is_ws_def is_digit_def fraction_part_def
  exponent_part_def digits_val_def

lemmas show_eval = show_nat.simps frac_digits.simps digit_char_def quoted_def Let_def

lemma default_provider:
  "new_RealtorProvider Map.empty (start_world Map.empty answers) =
     (\<lparr>apiKey = [], ttlHours = Fin 24, initialBackoffMs = Fin 500, maxRetries = Fin 5,
       limiter = ''realtor16''\<rparr>,
      \<lparr>clock = 0,
       registry =
         \<lparr>limiters = [''realtor16'' \<mapsto>
            \<lparr>tokens = Fin 30, lastRefill = 0, capacity = Fin 30, refillRate = Fin (1 / 2)\<rparr>],
          defaultCapacity = Fin 30, defaultRefillRate = Fin (1 / 2)\<rparr>,
       upstream = answers, requests = [], cache = Map.empty, cache_fault = (\<lambda>operation. None),
       cache_log = [], rnd = 0\<rparr>)"
  by (simp add: new_RealtorProvider_def start_world_def providerRateLimiter_def env_or_def
      getLimiter_def new_TokenBucketLimiter_def providerName_def parse_eval number_eval)

lemma sample_build_request:
  "build_request sample_externals
     \<lparr>apiKey = [], ttlHours = t, initialBackoffMs = b, maxRetries = m, limiter = l\<rparr>
     sample_query (Suc 0) = Inr (Some sample_request)"
  by (simp add: build_request_def sample_query_def sample_request_def radius_or_10_def nullish_def
      js_toString_def baseUrl_def show_eval)

lemma read_sample_page: "json_parse sample_externals (show_json sample_page) = Inr sample_page"
  by (simp add: sample_externals_def read_json_def)

section \<open>Frame lemmas: what the steps of fetchPage leave alone\<close>

lemma limiter_waitForToken_frame [simp]:
  "requests (limiter_waitForToken n w) = requests w"
  "upstream (limiter_waitForToken n w) = upstream w"
  "cache (limiter_waitForToken n w) = cache w"
  "cache_log (limiter_waitForToken n w) = cache_log w"
  "cache_fault (limiter_waitForToken n w) = cache_fault w"
  "rnd (limiter_waitForToken n w) = rnd w"
  by (simp_all add: limiter_waitForToken_def Let_def
      split: option.splits prod.splits wait_outcome.splits)

lemma sleep_frame [simp]:
  "requests (sleep ms w) = requests w"
  "upstream (sleep ms w) = upstream w"
  "cache (sleep ms w) = cache w"
  "cache_log (sleep ms w) = cache_log w"
  "cache_fault (sleep ms w) = cache_fault w"
  "rnd (sleep ms w) = rnd w"
  by (simp_all add: sleep_def)

lemma retry_wait_world:
  "snd (retry_wait ext p attempt r w) = w
   \<or> snd (retry_wait ext p attempt r w) = w\<lparr>rnd := Suc (rnd w)\<rparr>"
  by (simp add: retry_wait_def backoff_with_jitter_def Let_def split: option.splits)

lemma try_body_world:
  "snd (try_body ext p attempt outcome w) = w
   \<or> snd (try_body ext p attempt outcome w) = w\<lparr>rnd := Suc (rnd w)\<rparr>"
proof (cases outcome)
  case (Responds r)
  show ?thesis
  proof (cases "status r = 429")
    case True
    then show ?thesis
      using retry_wait_world [of ext p attempt r w] Responds
      by (auto simp: try_body_def split: prod.splits)
  next
    case False
    then show ?thesis
      using Responds by (simp add: try_body_def split: sum.splits)
  qed
next
  case (Rejects e)
  then show ?thesis by (simp add: try_body_def)
qed

lemma try_body_frame [simp]:
  "requests (snd (try_body ext p attempt outcome w)) = requests w"
  "cache (snd (try_body ext p attempt outcome w)) = cache w"
  "cache_log (snd (try_body ext p attempt outcome w)) = cache_log w"
  "cache_fault (snd (try_body ext p attempt outcome w)) = cache_fault w"
  "upstream (snd (try_body ext p attempt outcome w)) = upstream w"
  using try_body_world [of ext p attempt outcome w] by auto

section \<open>The token bucket under concurrent callers\<close>

text \<open>
  C3 (the code departs from the claim).  The claim: for every sequence of waitForToken calls,
  concurrent ones included, the count of tokens stays between 0 and the capacity.  On the
  limiter of the default configuration (capacity 30, refill rate 0.5 per millisecond) thirty
  calls at time 0 empty the bucket; two more calls at time 0 both suspend for 2 ms; when both
  timers fire at time 2 the first caller takes the one token refilled, and the second caller
  subtracts 1 from 0: the count is -1.
\<close>

theorem waitForToken_concurrent_negative:
  "map_option (\<lambda>st. tokens (fst st))
     (run_schedule (replicate 30 (Call 0) @ [Call 0, Call 0, Wake 2, Wake 2])
        (new_TokenBucketLimiter 0 (Fin 30) (Fin (1 / 2)), 0, []))
   = Some (Fin (- 1))"
  by (simp add: bucket_eval number_eval eval_nat_numeral)

section \<open>The retry loop of fetchPage\<close>

lemma js_lt_below: "js_le (Fin a) m \<Longrightarrow> b < a \<Longrightarrow> js_lt (Fin b) m"
  by (cases m) (auto simp: js_le_def js_eq_def)

lemma js_le_below: "js_le (Fin a) m \<Longrightarrow> b \<le> a \<Longrightarrow> js_le (Fin b) m"
  by (cases m) (auto simp: js_le_def js_eq_def)

lemma js_lt_le: "js_lt a m \<Longrightarrow> js_le a m"
  by (simp add: js_le_def)

text \<open>One iteration that meets a 429 with attempts left: a request is sent and the loop goes on.\<close>

lemma fetchLoop_429:
  assumes "js_lt (num_of_nat attempt) (maxRetries p)" and "status r = 429"
  shows "\<exists>w1. fetchLoop ext p rq page attempt lastError (Responds r # rest) w
                = fetchLoop ext p rq page (Suc attempt) lastError rest w1
              \<and> requests w1 = requests w @ [rq]"
proof -
  let ?w1 = "limiter_waitForToken (limiter p) w"
  let ?w2 = "?w1\<lparr>requests := requests ?w1 @ [rq]\<rparr>"
  obtain waitTime w3 where rw: "retry_wait ext p attempt r ?w2 = (waitTime, w3)"
    by (cases "retry_wait ext p attempt r ?w2")
  have "requests w3 = requests ?w2"
    using rw retry_wait_world [of ext p attempt r ?w2] by auto
  then have "requests (sleep waitTime w3) = requests w @ [rq]"
    by simp
  moreover have "fetchLoop ext p rq page attempt lastError (Responds r # rest) w
      = fetchLoop ext p rq page (Suc attempt) lastError rest (sleep waitTime w3)"
    using assms rw by (simp add: js_lt_le try_body_def Let_def)
  ultimately show ?thesis by blast
qed

text \<open>One iteration that meets a 2xx response with a body that parses: the loop returns it.\<close>

lemma fetchLoop_success:
  assumes "js_le (num_of_nat attempt) (maxRetries p)" and "ok r"
    and "json_parse ext (body r) = Inr data"
  shows "\<exists>w1. fetchLoop ext p rq page attempt lastError (Responds r # rest) w
                = Some (Inr data, rest, w1)
              \<and> requests w1 = requests w @ [rq]"
  using assms by (simp add: try_body_def Let_def ok_def)

text \<open>
  C6.  For every query page that is requested (the query names a bounding box, a city and
  state, or a zip code, and a request is built from it) and every configuration with
  maxRetries at least 3: when the upstream
  answers 429 to the first three attempts and a 2xx response with a body that parses to the
  fourth, fetchPage sends exactly four requests for the page, consumes exactly these four
  answers and returns the parsed body of the fourth.
\<close>

theorem fetchPage_three_429_then_success:
  assumes retries: "js_le (Fin 3) (maxRetries p)"
    and rq: "build_request ext p params page = Inr (Some rq)"
    and up: "upstream w = Responds r1 # Responds r2 # Responds r3 # Responds r4 # rest"
    and s: "status r1 = 429" "status r2 = 429" "status r3 = 429"
    and succ: "ok r4" "json_parse ext (body r4) = Inr data"
  shows "\<exists>w'. fetchPage ext p params page w = Some (Inr data, w')
             \<and> requests w' = requests w @ [rq, rq, rq, rq] \<and> upstream w' = rest"
proof -
  have lt: "js_lt (num_of_nat 0) (maxRetries p)" "js_lt (num_of_nat (Suc 0)) (maxRetries p)"
    "js_lt (num_of_nat (Suc (Suc 0))) (maxRetries p)"
    using retries by (auto simp: num_of_nat_def num_of_rat_Fin intro: js_lt_below)
  have le: "js_le (num_of_nat (Suc (Suc (Suc 0)))) (maxRetries p)"
    using retries by (auto simp: num_of_nat_def num_of_rat_Fin intro: js_le_below)
  obtain w1 where 1: "fetchLoop ext p rq page 0 None (upstream w) w
      = fetchLoop ext p rq page (Suc 0) None (Responds r2 # Responds r3 # Responds r4 # rest) w1"
      "requests w1 = requests w @ [rq]"
    using fetchLoop_429 [OF lt(1) s(1)] up by metis
  obtain w2 where 2:
    "fetchLoop ext p rq page (Suc 0) None (Responds r2 # Responds r3 # Responds r4 # rest) w1
      = fetchLoop ext p rq page (Suc (Suc 0)) None (Responds r3 # Responds r4 # rest) w2"
      "requests w2 = requests w1 @ [rq]"
    using fetchLoop_429 [OF lt(2) s(2)] by metis
  obtain w3 where 3:
    "fetchLoop ext p rq page (Suc (Suc 0)) None (Responds r3 # Responds r4 # rest) w2
      = fetchLoop ext p rq page (Suc (Suc (Suc 0))) None (Responds r4 # rest) w3"
      "requests w3 = requests w2 @ [rq]"
    using fetchLoop_429 [OF lt(3) s(3)] by metis
  obtain w4 where 4:
    "fetchLoop ext p rq page (Suc (Suc (Suc 0))) None (Responds r4 # rest) w3
      = Some (Inr data, rest, w4)" "requests w4 = requests w3 @ [rq]"
    using fetchLoop_success [OF le succ] by metis
  have "fetchPage ext p params page w = Some (Inr data, w4\<lparr>upstream := rest\<rparr>)"
    using rq 1 2 3 4 by (simp add: fetchPage_def)
  moreover have "requests (w4\<lparr>upstream := rest\<rparr>) = requests w @ [rq, rq, rq, rq]"
    using 1 2 3 4 by simp
  ultimately show ?thesis by auto
qed

text \<open>
  The theorem at the default configuration (maxRetries 5) and the query \<open>{zip: '37201'}\<close>:
  three 429 answers, then the sample page.
\<close>

theorem fetchPage_three_429_then_success_witness:
  "\<exists>w'. fetchPage sample_externals default_provider_record sample_query 1
          (fresh_world [answer 429 JNull, answer 429 JNull, answer 429 JNull, answer 200 sample_page])
        = Some (Inr sample_page, w')
      \<and> requests w' = [sample_request, sample_request, sample_request, sample_request]
      \<and> upstream w' = []"
  using fetchPage_three_429_then_success
    [of default_provider_record sample_externals sample_query 1 sample_request
        "fresh_world [answer 429 JNull, answer 429 JNull, answer 429 JNull, answer 200 sample_page]"
        "\<lparr>status = 429, headers = [], body = show_json JNull\<rparr>"
        "\<lparr>status = 429, headers = [], body = show_json JNull\<rparr>"
        "\<lparr>status = 429, headers = [], body = show_json JNull\<rparr>"
        "\<lparr>status = 200, headers = [], body = show_json sample_page\<rparr>" "[]" sample_page]
  by (simp add: default_provider_record_def fresh_world_def default_provider sample_build_request
      read_sample_page answer_def ok_def js_le_def js_eq_def)

text \<open>
  One iteration that meets a status that is neither 2xx nor 429, with attempts left: the error
  thrown for the status is caught by the loop, which sleeps and goes on with the next attempt.
\<close>

lemma fetchLoop_error_status:
  assumes "js_le (num_of_nat attempt) (maxRetries p)"
    and "\<not> js_eq (num_of_nat attempt) (maxRetries p)"
    and "status r \<noteq> 429" and "\<not> ok r"
  shows "fetchLoop ext p rq page attempt lastError (Responds r # rest) w
         = fetchLoop ext p rq page (Suc attempt)
             (Some (Error (''RapidAPI responded with '' @ show_nat (status r)))) rest
             (sleep (js_mul (initialBackoffMs p) (js_pow2 attempt))
                ((limiter_waitForToken (limiter p) w)
                   \<lparr>requests := requests (limiter_waitForToken (limiter p) w) @ [rq]\<rparr>))"
  using assms by (simp add: try_body_def Let_def)

text \<open>
  C1 (the code departs from the claim).  The claim: a response whose status is neither 2xx nor
  429 makes fetchPage fail at once with an upstream error, with no further attempt for the
  page.  In the code the \<open>throw\<close> for such a status stands inside the \<open>try\<close> block, so the
  \<open>catch\<close> clause of the loop takes it, sleeps and goes on to the next attempt.  At the
  default configuration, with a 500 followed by a 200: two requests are sent and the second
  answer is returned.
\<close>

theorem fetchPage_retries_after_500:
  "map_option (\<lambda>(res, w'). (res, requests w'))
     (fetchPage sample_externals default_provider_record sample_query 1
        (fresh_world [answer 500 JNull, answer 200 sample_page]))
   = Some (Inr sample_page, [sample_request, sample_request])"
  by (simp add: default_provider_record_def fresh_world_def default_provider sample_build_request
      read_sample_page answer_def ok_def fetchPage_def try_body_def limiter_waitForToken_def
      sleep_def bucket_eval number_eval)

section \<open>The configured calls per minute\<close>

text \<open>
  The constructor reads \<open>REALTOR_MAX_CALLS_PER_MIN\<close> into a local constant and never uses
  it: the provider and the limiter it registers are the same whatever the variable holds.
\<close>

lemma new_RealtorProvider_ignores_maxCallsPerMin:
  "new_RealtorProvider (env(''REALTOR_MAX_CALLS_PER_MIN'' := v)) w = new_RealtorProvider env w"
  by (simp add: new_RealtorProvider_def env_or_def Let_def)

lemma two_per_minute_provider:
  "new_RealtorProvider [''REALTOR_MAX_CALLS_PER_MIN'' \<mapsto> ''2'']
     (start_world [''REALTOR_MAX_CALLS_PER_MIN'' \<mapsto> ''2''] answers) =
   new_RealtorProvider Map.empty (start_world Map.empty answers)"
  by (simp add: new_RealtorProvider_def start_world_def providerRateLimiter_def env_or_def Let_def)

text \<open>
  C2 (the code departs from the claim).  The claim: \<open>REALTOR_MAX_CALLS_PER_MIN\<close> sets the
  refill rate of the token bucket, so that the provider sends at most that many calls per
  minute in steady state.  With the variable set to 2, thirty-two calls of fetchPage in a row
  are all sent within 4 ms: thirty at once from the full bucket of capacity 30, and after that
  one every 2 ms (the registry's rate of 0.5, read as tokens per millisecond), where two per
  minute would be one every 30000 ms.
\<close>

theorem maxCallsPerMin_not_enforced:
  "map_option (\<lambda>w. (length (requests w), clock w))
     (fetch_many sample_externals
        (fst (new_RealtorProvider [''REALTOR_MAX_CALLS_PER_MIN'' \<mapsto> ''2'']
                (start_world [''REALTOR_MAX_CALLS_PER_MIN'' \<mapsto> ''2''] [])))
        sample_query 32
        (snd (new_RealtorProvider [''REALTOR_MAX_CALLS_PER_MIN'' \<mapsto> ''2'']
                (start_world [''REALTOR_MAX_CALLS_PER_MIN'' \<mapsto> ''2'']
                   (replicate 32 (answer 200 sample_page))))))
   = Some (32, 4)"
  by (simp add: two_per_minute_provider default_provider sample_build_request read_sample_page
      answer_def ok_def fetchPage_def try_body_def limiter_waitForToken_def sleep_def bucket_eval
      number_eval eval_nat_numeral)

section \<open>computeHash\<close>



section \<open>transformListing: when it returns, and what\<close>

lemma map_of_obj_set: "map_of (obj_set kvs k v) = (map_of kvs)(k \<mapsto> v)"
  by (simp add: obj_set_def update_conv')

lemma falsy_stringifiable: "\<not> truthy v \<Longrightarrow> stringifiable v"
  by (cases v) auto

lemma toString_method_truthy: "truthy v \<Longrightarrow> toString_method v = js_toString v"
  by (auto simp: toString_method_def nullish_def)

lemma truthy_rawPrice: "truthy (rawPrice_of listing)"
  by (simp add: rawPrice_of_def js_or_def)

lemma cleanedPrice_truthy:
  assumes "truthy v"
  shows "cleanedPrice v
         = (if stringifiable v
            then Inr (cleaned_form v)
            else Inl TypeError)"
  using assms by (cases v)
    (auto simp: cleanedPrice_def cleaned_form_def toString_method_def nullish_def js_toString_def)

lemma price_of_truthy:
  assumes "truthy v"
  shows "price_of v
         = (if stringifiable v
            then Inr (js_floor (num_or_zero (parseFloat (cleaned_form v))))
            else Inl TypeError)"
  using assms by (simp add: price_of_def cleanedPrice_truthy)

text \<open>A listing with a conversion that throws: a TypeError, and \<open>Math.random\<close> not called.\<close>

lemma transformListing_throws:
  assumes "\<not> convertible listing"
  shows "transformListing ext k listing = (Inl TypeError, k)"
proof (cases "nullish listing")
  case True
  then show ?thesis by (simp add: transformListing_def)
next
  case False
  have id: "toString_method (given_id_of listing) = js_toString (given_id_of listing)"
    if "truthy (given_id_of listing)"
    using that by (rule toString_method_truthy)
  have falsy: "stringifiable (given_id_of listing)" if "\<not> truthy (given_id_of listing)"
    using that by (rule falsy_stringifiable)
  show ?thesis
    using assms False id falsy
    by (auto simp: transformListing_def convertible_def Let_def js_toString_def
        price_of_truthy [OF truthy_rawPrice] split: sum.splits prod.splits if_splits)
qed

text \<open>A listing whose conversions succeed: the feature, field by field.\<close>

lemma transformListing_returns:
  assumes "convertible listing"
  shows "\<exists>feature k'. transformListing ext k listing = (Inr feature, k')
           \<and> js_get (js_get feature ''geometry'') ''coordinates''
               = (let lat = parseFloat (string_form (latVal_of listing));
                      lon = parseFloat (string_form (lonVal_of listing))
                  in JArr [JArr
                       [position (js_sub lon epsilon) (js_sub lat epsilon),
                        position (js_add lon epsilon) (js_sub lat epsilon),
                        position (js_add lon epsilon) (js_add lat epsilon),
                        position (js_sub lon epsilon) (js_add lat epsilon),
                        position (js_sub lon epsilon) (js_sub lat epsilon)]])
           \<and> price_of (rawPrice_of listing)
               = Inr (js_floor (num_or_zero (parseFloat (cleaned_form (rawPrice_of listing)))))
           \<and> js_get (js_get feature ''properties'') ''price''
               = JNum (js_floor (num_or_zero (parseFloat (cleaned_form (rawPrice_of listing)))))"
proof -
  have id: "toString_method (given_id_of listing) = js_toString (given_id_of listing)"
    if "truthy (given_id_of listing)"
    using that by (rule toString_method_truthy)
  show ?thesis
    using assms id
    by (auto simp: transformListing_def convertible_def Let_def js_toString_def map_of_obj_set
        price_of_truthy [OF truthy_rawPrice] split: sum.splits prod.splits if_splits)
qed

lemma transformListing_price:
  assumes "convertible listing"
  shows "price_of (rawPrice_of listing)
           = Inr (js_floor (num_or_zero (parseFloat (cleaned_form (rawPrice_of listing)))))"
    and "properties_price (transformListing ext k listing)
           = JNum (js_floor (num_or_zero (parseFloat (cleaned_form (rawPrice_of listing)))))"
  using transformListing_returns [OF assms, of ext k]
  by (auto simp: properties_price_def)

lemma transformListing_exterior_ring:
  assumes "convertible listing"
  shows "exterior_ring (transformListing ext k listing)
           = (let lat = parseFloat (string_form (latVal_of listing));
                  lon = parseFloat (string_form (lonVal_of listing))
              in [position (js_sub lon epsilon) (js_sub lat epsilon),
                  position (js_add lon epsilon) (js_sub lat epsilon),
                  position (js_add lon epsilon) (js_add lat epsilon),
                  position (js_sub lon epsilon) (js_add lat epsilon),
                  position (js_sub lon epsilon) (js_sub lat epsilon)])"
  using transformListing_returns [OF assms, of ext k]
  by (auto simp: exterior_ring_def Let_def)

lemma primitive_stringifiable: "primitive v \<Longrightarrow> stringifiable v"
  by (cases v) auto

lemmas listing_eval =
  convertible_def latVal_of_def lonVal_of_def coordinate_of_def given_id_of_def rawPrice_of_def
  opt_get_def nullish_def js_or_def

section \<open>transformListing: the price\<close>

text \<open>
  C10.  For every raw listing (an object, not null) whose \<open>price\<close> is falsy (0, the empty
  string, null, absent): the raw price of line 290 is \<open>list_price\<close> when that is present
  (truthy), and the default \<open>'0'\<close> otherwise.  Where no conversion throws, transformListing
  returns a feature whose price is computed from that value (0 when \<open>list_price\<close> is falsy
  as well); where one does, that of a \<open>list_price\<close> without a string form included, it
  throws a TypeError and there is no feature to carry a price.
\<close>

theorem falsy_price_falls_back_to_list_price:
  assumes "\<not> nullish listing" and "\<not> truthy (js_get listing ''price'')"
  shows "rawPrice_of listing = js_or (js_get listing ''list_price'') (JStr ''0'')
       \<and> (truthy (js_get listing ''list_price'')
            \<longrightarrow> rawPrice_of listing = js_get listing ''list_price'')
       \<and> (convertible listing
            \<longrightarrow> (\<exists>feature k'. transformListing ext k listing = (Inr feature, k'))
              \<and> (\<exists>n. price_of (js_or (js_get listing ''list_price'') (JStr ''0'')) = Inr n
                     \<and> properties_price (transformListing ext k listing) = JNum n)
              \<and> (\<not> truthy (js_get listing ''list_price'')
                    \<longrightarrow> properties_price (transformListing ext k listing) = JNum (Fin 0)))
       \<and> (\<not> convertible listing \<longrightarrow> transformListing ext k listing = (Inl TypeError, k))
       \<and> (\<not> stringifiable (js_get listing ''list_price'') \<longrightarrow> \<not> convertible listing)"
proof -
  let ?lp = "js_get listing ''list_price''"
  have raw: "rawPrice_of listing = js_or ?lp (JStr ''0'')"
    using assms(2) by (simp add: rawPrice_of_def js_or_def)
  have present: "rawPrice_of listing = ?lp" if "truthy ?lp"
    using that raw by (simp add: js_or_def)
  have returns: "\<exists>feature k'. transformListing ext k listing = (Inr feature, k')"
    if "convertible listing"
    using transformListing_returns [OF that, of ext k] by blast
  have price: "\<exists>n. price_of (js_or ?lp (JStr ''0'')) = Inr n
                  \<and> properties_price (transformListing ext k listing) = JNum n"
    if "convertible listing"
    using transformListing_price(1) [OF that] transformListing_price(2) [OF that, of ext k] raw
    by simp
  have zero: "properties_price (transformListing ext k listing) = JNum (Fin 0)"
    if "convertible listing" "\<not> truthy ?lp"
  proof -
    have "rawPrice_of listing = JStr ''0''"
      using raw that(2) by (simp add: js_or_def)
    then show ?thesis
      using transformListing_price(2) [OF that(1), of ext k]
      by (simp add: cleaned_form_def num_or_zero_def parse_eval number_eval)
  qed
  have throws: "transformListing ext k listing = (Inl TypeError, k)" if "\<not> convertible listing"
    using that by (rule transformListing_throws)
  have unconvertible: "\<not> convertible listing" if "\<not> stringifiable ?lp"
  proof -
    have "truthy ?lp"
      using that falsy_stringifiable by blast
    then show ?thesis
      using that present by (simp add: convertible_def)
  qed
  show ?thesis
    using raw present returns price zero throws unconvertible by blast
qed

text \<open>
  The theorem at \<open>{price: 0, list_price: 500000}\<close>: the price is 500000, not 0; and at
  \<open>{price: 0, list_price: {toString: 1}}\<close>: a TypeError.
\<close>

theorem falsy_price_falls_back_to_list_price_witness:
  "properties_price
     (transformListing sample_externals 0
        (JObj [(''price'', JNum (Fin 0)), (''list_price'', JNum (Fin 500000))]))
   = JNum (Fin 500000)
   \<and> transformListing sample_externals 0
        (JObj [(''price'', JNum (Fin 0)), (''list_price'', JObj [(''toString'', JNum (Fin 1))])])
     = (Inl TypeError, 0)"
  using falsy_price_falls_back_to_list_price
    [of "JObj [(''price'', JNum (Fin 0)), (''list_price'', JNum (Fin 500000))]" sample_externals 0]
    falsy_price_falls_back_to_list_price
    [of "JObj [(''price'', JNum (Fin 0)), (''list_price'', JObj [(''toString'', JNum (Fin 1))])]"
        sample_externals 0]
  by (simp add: listing_eval price_of_def cleanedPrice_def toString_method_def js_toString_def
      num_or_zero_def parse_eval show_eval number_eval)

text \<open>
  C9, as stated, fails: a price that arrives as a number is not stripped of anything, its
  string form goes to \<open>parseFloat\<close> with its sign.  For \<open>{price: -5}\<close> transformListing
  returns a feature and its price is -5.
\<close>

theorem negative_price_counterexample:
  "(\<exists>feature k'. transformListing sample_externals 0 (JObj [(''price'', JNum (Fin (- 5)))])
                    = (Inr feature, k'))
   \<and> properties_price (transformListing sample_externals 0 (JObj [(''price'', JNum (Fin (- 5)))]))
       = JNum (Fin (- 5))
   \<and> \<not> is_nonneg_integer
         (properties_price (transformListing sample_externals 0 (JObj [(''price'', JNum (Fin (- 5)))])))"
proof -
  have c: "convertible (JObj [(''price'', JNum (Fin (- 5)))])"
    by (simp add: listing_eval)
  have "properties_price (transformListing sample_externals 0 (JObj [(''price'', JNum (Fin (- 5)))]))
          = JNum (Fin (- 5))"
    using transformListing_price(2) [OF c, of sample_externals 0]
    by (simp add: rawPrice_of_def js_or_def cleaned_form_def num_or_zero_def parse_eval show_eval
        number_eval)
  then show ?thesis
    using transformListing_returns [OF c, of sample_externals 0] by auto
qed

text \<open>A string that is not signed reads as NaN or as a number that is not below zero.\<close>

lemma scan_number_unsigned:
  assumes "take_sign t = (1, t2)"
  shows "fst (scan_number t) = NaN \<or> fst (scan_number t) = PInf
         \<or> (\<exists>q. 0 \<le> q \<and> fst (scan_number t) = num_of_rat q)"
proof -
  obtain fp r2 where fr: "fraction_part (dropWhile is_digit t2) = (fp, r2)"
    by (cases "fraction_part (dropWhile is_digit t2)")
  obtain e r3 where ex: "exponent_part r2 = (e, r3)"
    by (cases "exponent_part r2")
  let ?ip = "takeWhile is_digit t2"
  let ?q = "1 * (of_nat (digits_val ?ip) + of_nat (digits_val fp) / 10 ^ length fp) * 10 powi e :: rat"
  show ?thesis
  proof (cases "take 8 t2 = ''Infinity''")
    case True
    then show ?thesis using assms by (simp add: scan_number_def)
  next
    case noinf: False
    show ?thesis
    proof (cases "?ip = [] \<and> fp = []")
      case True
      then show ?thesis using assms noinf fr by (simp add: scan_number_def)
    next
      case False
      then have "fst (scan_number t) = num_of_rat ?q"
        using assms noinf fr ex by (auto simp: scan_number_def Let_def)
      moreover have "0 \<le> ?q"
        by (simp add: zero_le_power_int)
      ultimately show ?thesis by blast
    qed
  qed
qed

lemma parseFloat_unsigned:
  assumes "\<not> signed t"
  shows "parseFloat t = NaN \<or> parseFloat t = PInf \<or> (\<exists>q. 0 \<le> q \<and> parseFloat t = num_of_rat q)"
proof -
  have "\<exists>t2. take_sign (dropWhile is_ws t) = (1, t2)"
    using assms
    by (cases "dropWhile is_ws t") (simp_all add: signed_def take_sign_def del: dropWhile_eq_Nil_conv)
  then show ?thesis
    unfolding parseFloat_def using scan_number_unsigned by blast
qed

lemma floor_nonneg_price:
  assumes "n = NaN \<or> n = PInf \<or> (\<exists>q. 0 \<le> q \<and> n = num_of_rat q)"
  shows "is_nonneg_integer (JNum (js_floor (num_or_zero n))) \<or> js_floor (num_or_zero n) = PInf"
  using assms by (auto simp: num_or_zero_def num_of_rat_def)

text \<open>The cleaned form of a raw price that is not signed.\<close>

lemma cleaned_not_signed:
  assumes "\<forall>c \<in> set t. is_digit c \<or> c = CHR ''.''"
  shows "\<not> signed t"
proof (cases "dropWhile is_ws t")
  case Nil
  then show ?thesis by (simp add: signed_def del: dropWhile_eq_Nil_conv)
next
  case (Cons c r)
  then have "c \<in> set t"
    by (metis list.set_intros(1) set_dropWhileD)
  then have "is_digit c \<or> c = CHR ''.''"
    using assms by blast
  then have "c \<noteq> CHR ''-''"
    by (auto simp: is_digit_def)
  then show ?thesis
    using Cons by (simp add: signed_def)
qed

lemma digit_char_is_digit: "d < 10 \<Longrightarrow> is_digit (digit_char d)"
proof -
  assume "d < 10"
  then have "d \<in> {0, 1, 2, 3, 4, 5, 6, 7, 8, 9}"
    by auto
  then show ?thesis
    by (auto simp: digit_char_def is_digit_def)
qed

lemma show_nat_starts_with_digit: "\<exists>c r. show_nat n = c # r \<and> is_digit c"
proof (induction n rule: show_nat.induct)
  case (1 n)
  show ?case
  proof (cases "n < 10")
    case True
    then show ?thesis
      by (simp add: show_nat.simps [of n] digit_char_is_digit)
  next
    case False
    then obtain c r where "show_nat (n div 10) = c # r" "is_digit c"
      using 1 by blast
    then show ?thesis
      using False by (simp add: show_nat.simps [of n])
  qed
qed

lemma digit_first_not_signed:
  assumes "is_digit c"
  shows "\<not> signed (c # r)"
proof -
  have "\<not> is_ws c" and "c \<noteq> CHR ''-''"
    using assms by (auto simp: is_digit_def is_ws_def)
  then show ?thesis by (simp add: signed_def)
qed

lemma number_not_signed:
  assumes "\<not> js_lt n (Fin 0)"
  shows "\<not> signed (num_toString n)"
proof (cases n)
  case NaN
  then show ?thesis by (simp add: signed_def is_ws_def)
next
  case PInf
  then show ?thesis by (simp add: signed_def is_ws_def)
next
  case NInf
  then show ?thesis using assms by simp
next
  case (Fin q)
  then have "\<not> q < 0" using assms by simp
  moreover obtain c r where "show_nat (nat \<lfloor>\<bar>q\<bar>\<rfloor>) = c # r" "is_digit c"
    using show_nat_starts_with_digit by blast
  ultimately show ?thesis
    using Fin by (simp add: Let_def digit_first_not_signed)
qed

lemma unsigned_price_not_signed:
  assumes "unsigned_price v"
  shows "\<not> signed (cleaned_form v)"
proof (cases v)
  case (JNum n)
  then show ?thesis
    using assms by (simp add: cleaned_form_def number_not_signed)
next
  case (JStr s)
  then show ?thesis
    by (simp add: cleaned_form_def cleaned_not_signed)
qed (use assms in \<open>auto simp: cleaned_form_def signed_def is_ws_def\<close>)

text \<open>
  C9, amended.  For every raw listing that transformListing turns into a feature (no
  conversion throws): the price of the feature is the floor of what \<open>parseFloat\<close> reads
  from the cleaned price, 0 when that is NaN; the cleaned price is the raw price
  (\<open>price || list_price || '0'\<close>) stripped of every character but the digits and the dot
  when it is a string, and its string form, sign included, when it is not.  The price is a
  whole number not below zero, or Infinity when the digits are beyond the range of a double,
  whenever the cleaned price is not signed: for every string, every number that is not below
  zero, every boolean and every object.
\<close>

theorem price_nonneg_integer:
  assumes "convertible listing"
  shows "(\<exists>feature k'. transformListing ext k listing = (Inr feature, k'))
       \<and> cleanedPrice (rawPrice_of listing) = Inr (cleaned_form (rawPrice_of listing))
       \<and> (\<forall>s. rawPrice_of listing = JStr s
              \<longrightarrow> cleaned_form (rawPrice_of listing) = filter (\<lambda>c. is_digit c \<or> c = CHR ''.'') s)
       \<and> properties_price (transformListing ext k listing)
           = JNum (js_floor (num_or_zero (parseFloat (cleaned_form (rawPrice_of listing)))))
       \<and> (parseFloat (cleaned_form (rawPrice_of listing)) = NaN
            \<longrightarrow> properties_price (transformListing ext k listing) = JNum (Fin 0))
       \<and> (\<not> signed (cleaned_form (rawPrice_of listing))
            \<longrightarrow> is_nonneg_integer (properties_price (transformListing ext k listing))
                \<or> properties_price (transformListing ext k listing) = JNum PInf)
       \<and> (unsigned_price (rawPrice_of listing)
            \<longrightarrow> is_nonneg_integer (properties_price (transformListing ext k listing))
                \<or> properties_price (transformListing ext k listing) = JNum PInf)"
proof -
  let ?c = "cleaned_form (rawPrice_of listing)"
  let ?price = "properties_price (transformListing ext k listing)"
  have returns: "\<exists>feature k'. transformListing ext k listing = (Inr feature, k')"
    using transformListing_returns [OF assms, of ext k] by blast
  have cleaned: "cleanedPrice (rawPrice_of listing) = Inr ?c"
    using assms by (simp add: cleanedPrice_truthy [OF truthy_rawPrice] convertible_def)
  have stripped: "?c = filter (\<lambda>c. is_digit c \<or> c = CHR ''.'') s" if "rawPrice_of listing = JStr s" for s
    using that by (simp add: cleaned_form_def)
  have eq: "?price = JNum (js_floor (num_or_zero (parseFloat ?c)))"
    using assms by (rule transformListing_price(2))
  have nan: "?price = JNum (Fin 0)" if "parseFloat ?c = NaN"
    using eq that by (simp add: num_or_zero_def)
  have nonneg: "is_nonneg_integer ?price \<or> ?price = JNum PInf" if "\<not> signed ?c"
  proof -
    have "is_nonneg_integer (JNum (js_floor (num_or_zero (parseFloat ?c))))
          \<or> js_floor (num_or_zero (parseFloat ?c)) = PInf"
      using parseFloat_unsigned [OF that] by (rule floor_nonneg_price)
    then show ?thesis using eq by auto
  qed
  have kinds: "is_nonneg_integer ?price \<or> ?price = JNum PInf" if "unsigned_price (rawPrice_of listing)"
    using nonneg unsigned_price_not_signed [OF that] by blast
  show ?thesis
    using returns cleaned stripped eq nan nonneg kinds by blast
qed

text \<open>
  The theorem at \<open>{price: '$450,000.75'}\<close>: the price is 450000; and at the listing of the
  specification's example, whose price is the number 250000.
\<close>

theorem price_nonneg_integer_witness:
  "properties_price (transformListing sample_externals 0 (JObj [(''price'', JStr ''$450,000.75'')]))
     = JNum (Fin 450000)
   \<and> properties_price (transformListing sample_externals 0 spec_listing) = JNum (Fin 250000)
   \<and> is_nonneg_integer (properties_price (transformListing sample_externals 0 spec_listing))"
  using price_nonneg_integer [of "JObj [(''price'', JStr ''$450,000.75'')]" sample_externals 0]
    price_nonneg_integer [of spec_listing sample_externals 0]
  by (simp add: listing_eval spec_listing_def cleaned_form_def num_or_zero_def parse_eval show_eval
      number_eval)

section \<open>transformListing: the geometry\<close>

text \<open>
  C8, as stated, fails: there is no default for a missing coordinate.  For the listing
  \<open>{}\<close> transformListing returns a feature, both coordinates parse to NaN and the ring is
  five times \<open>[NaN, NaN]\<close>: its positions are not numbers, and the last does not even
  compare equal to the first.
\<close>

theorem missing_coordinates_counterexample:
  "(\<exists>feature k'. transformListing sample_externals 0 (JObj []) = (Inr feature, k'))
   \<and> exterior_ring (transformListing sample_externals 0 (JObj []))
       = [position NaN NaN, position NaN NaN, position NaN NaN, position NaN NaN, position NaN NaN]
   \<and> \<not> closed_polygon (exterior_ring (transformListing sample_externals 0 (JObj [])))"
proof -
  have c: "convertible (JObj [])"
    by (simp add: listing_eval)
  have "exterior_ring (transformListing sample_externals 0 (JObj []))
       = [position NaN NaN, position NaN NaN, position NaN NaN, position NaN NaN, position NaN NaN]"
    using transformListing_exterior_ring [OF c, of sample_externals 0]
    by (simp add: latVal_of_def lonVal_of_def coordinate_of_def opt_get_def nullish_def js_or_def
        Let_def parse_eval js_sub_def)
  then show ?thesis
    using transformListing_returns [OF c, of sample_externals 0]
    by (auto simp: closed_polygon_def position_def)
qed

text \<open>
  C8, amended.  For every raw listing: transformListing returns a feature exactly when no
  conversion throws (the listing is not null, and its coordinates, identifier and raw price
  have a string form), and throws a TypeError otherwise, on which the map of search leaves
  the record out.  A coordinate that is missing or not numeric is never the reason: with coordinates
  that are not objects, the listing is dropped only for its identifier or its price.  The ring
  of a returned feature has exactly five positions, built from the parsed coordinates and the
  offset 0.0001, the fifth by the same expressions as the first.  When both coordinates parse
  to finite numbers (of magnitude at most \<open>2^64\<close>) the ring is a valid closed polygon; when
  one of them is missing or not numeric (it parses to NaN) the positions hold NaN and the ring
  is not a valid polygon.
\<close>

theorem transformListing_ring:
  "((\<exists>feature k'. transformListing ext k listing = (Inr feature, k')) \<longleftrightarrow> convertible listing)
   \<and> (\<not> convertible listing
        \<longrightarrow> transformListing ext k listing = (Inl TypeError, k)
          \<and> transform_all ext k (listing # others) = transform_all ext k others)
   \<and> (primitive (latVal_of listing) \<and> primitive (lonVal_of listing)
        \<longrightarrow> convertible listing
            = (\<not> nullish listing \<and> stringifiable (given_id_of listing)
               \<and> stringifiable (rawPrice_of listing)))
   \<and> (convertible listing \<longrightarrow>
        exterior_ring (transformListing ext k listing)
           = (let lat = parseFloat (string_form (latVal_of listing));
                  lon = parseFloat (string_form (lonVal_of listing))
              in [position (js_sub lon epsilon) (js_sub lat epsilon),
                  position (js_add lon epsilon) (js_sub lat epsilon),
                  position (js_add lon epsilon) (js_add lat epsilon),
                  position (js_sub lon epsilon) (js_add lat epsilon),
                  position (js_sub lon epsilon) (js_sub lat epsilon)])
        \<and> length (exterior_ring (transformListing ext k listing)) = 5
        \<and> hd (exterior_ring (transformListing ext k listing))
            = last (exterior_ring (transformListing ext k listing))
        \<and> (\<forall>a b. parseFloat (string_form (latVal_of listing)) = Fin a
                 \<and> parseFloat (string_form (lonVal_of listing)) = Fin b
                 \<and> \<bar>a\<bar> \<le> 2 ^ 64 \<and> \<bar>b\<bar> \<le> 2 ^ 64
               \<longrightarrow> closed_polygon (exterior_ring (transformListing ext k listing)))
        \<and> (parseFloat (string_form (latVal_of listing)) = NaN
             \<or> parseFloat (string_form (lonVal_of listing)) = NaN
               \<longrightarrow> \<not> closed_polygon (exterior_ring (transformListing ext k listing))))"
proof -
  let ?lat = "parseFloat (string_form (latVal_of listing))"
  let ?lon = "parseFloat (string_form (lonVal_of listing))"
  let ?ring = "[position (js_sub ?lon epsilon) (js_sub ?lat epsilon),
                position (js_add ?lon epsilon) (js_sub ?lat epsilon),
                position (js_add ?lon epsilon) (js_add ?lat epsilon),
                position (js_sub ?lon epsilon) (js_add ?lat epsilon),
                position (js_sub ?lon epsilon) (js_sub ?lat epsilon)]"
  have returns: "(\<exists>feature k'. transformListing ext k listing = (Inr feature, k'))
                 \<longleftrightarrow> convertible listing"
  proof
    assume feature: "\<exists>feature k'. transformListing ext k listing = (Inr feature, k')"
    show "convertible listing"
    proof (rule ccontr)
      assume "\<not> convertible listing"
      then have "transformListing ext k listing = (Inl TypeError, k)"
        by (rule transformListing_throws)
      then show False
        using feature by simp
    qed
  next
    assume "convertible listing"
    then show "\<exists>feature k'. transformListing ext k listing = (Inr feature, k')"
      using transformListing_returns [of listing ext k] by blast
  qed
  have throws: "transformListing ext k listing = (Inl TypeError, k)"
    "transform_all ext k (listing # others) = transform_all ext k others"
    if "\<not> convertible listing"
    using that by (simp_all add: transformListing_throws)
  have coordinates: "convertible listing
      = (\<not> nullish listing \<and> stringifiable (given_id_of listing)
         \<and> stringifiable (rawPrice_of listing))"
    if "primitive (latVal_of listing)" "primitive (lonVal_of listing)"
    using that by (simp add: convertible_def primitive_stringifiable)
  have ring: "exterior_ring (transformListing ext k listing) = ?ring" if "convertible listing"
    using transformListing_exterior_ring [OF that, of ext k] by (simp add: Let_def)
  have finite: "closed_polygon ?ring"
    if "?lat = Fin a" "?lon = Fin b" "\<bar>a\<bar> \<le> 2 ^ 64" "\<bar>b\<bar> \<le> 2 ^ 64" for a b
  proof -
    have "\<bar>a - 1 / 10000\<bar> \<le> 2 ^ 100" "\<bar>a + 1 / 10000\<bar> \<le> 2 ^ 100"
      "\<bar>b - 1 / 10000\<bar> \<le> 2 ^ 100" "\<bar>b + 1 / 10000\<bar> \<le> 2 ^ 100"
      using that(3,4) by auto
    then show ?thesis
      using that(1,2)
      by (simp add: closed_polygon_def position_def epsilon_def js_sub_def num_of_rat_Fin js_eq_def)
  qed
  have nan: "\<not> closed_polygon ?ring" if "?lat = NaN \<or> ?lon = NaN"
    using that by (auto simp: closed_polygon_def position_def js_sub_def)
  show ?thesis
    using returns throws coordinates ring finite nan by (simp add: Let_def)
qed

text \<open>
  The theorem at the listing of the specification's example (lat 36.5, lon -93.2), and at
  \<open>{latitude: {toString: 1}}\<close>, where \<open>parseFloat\<close> throws.
\<close>

theorem transformListing_ring_witness:
  "closed_polygon (exterior_ring (transformListing sample_externals 0 spec_listing))
   \<and> exterior_ring (transformListing sample_externals 0 spec_listing)
       = [position (Fin (- 932001 / 10000)) (Fin (364999 / 10000)),
          position (Fin (- 931999 / 10000)) (Fin (364999 / 10000)),
          position (Fin (- 931999 / 10000)) (Fin (365001 / 10000)),
          position (Fin (- 932001 / 10000)) (Fin (365001 / 10000)),
          position (Fin (- 932001 / 10000)) (Fin (364999 / 10000))]
   \<and> transformListing sample_externals 0 (JObj [(''latitude'', JObj [(''toString'', JNum (Fin 1))])])
       = (Inl TypeError, 0)"
proof -
  have lat: "parseFloat (string_form (latVal_of spec_listing)) = Fin (73 / 2)"
    by (simp add: spec_listing_def latVal_of_def coordinate_of_def opt_get_def nullish_def js_or_def
        Let_def parse_eval show_eval frac_digits.simps num_of_rat_Fin)
  have lon: "parseFloat (string_form (lonVal_of spec_listing)) = Fin (- 466 / 5)"
    by (simp add: spec_listing_def lonVal_of_def coordinate_of_def opt_get_def nullish_def js_or_def
        Let_def parse_eval show_eval frac_digits.simps num_of_rat_Fin)
  have c: "convertible spec_listing"
    by (simp add: spec_listing_def listing_eval)
  note ring = transformListing_ring [of sample_externals 0 spec_listing]
  have "parseFloat (string_form (latVal_of spec_listing)) = Fin a
          \<and> parseFloat (string_form (lonVal_of spec_listing)) = Fin b
          \<and> \<bar>a\<bar> \<le> 2 ^ 64 \<and> \<bar>b\<bar> \<le> 2 ^ 64
        \<longrightarrow> closed_polygon (exterior_ring (transformListing sample_externals 0 spec_listing))"
    for a b
    using ring c by blast
  from this [of "73 / 2" "- 466 / 5"]
  have "closed_polygon (exterior_ring (transformListing sample_externals 0 spec_listing))"
    using lat lon by simp
  moreover have "exterior_ring (transformListing sample_externals 0 spec_listing)
       = [position (Fin (- 932001 / 10000)) (Fin (364999 / 10000)),
          position (Fin (- 931999 / 10000)) (Fin (364999 / 10000)),
          position (Fin (- 931999 / 10000)) (Fin (365001 / 10000)),
          position (Fin (- 932001 / 10000)) (Fin (365001 / 10000)),
          position (Fin (- 932001 / 10000)) (Fin (364999 / 10000))]"
    using ring c lat lon by (simp add: js_sub_def epsilon_def num_of_rat_Fin)
  moreover have "transformListing sample_externals 0
                   (JObj [(''latitude'', JObj [(''toString'', JNum (Fin 1))])])
                 = (Inl TypeError, 0)"
    using transformListing_ring
      [of sample_externals 0 "JObj [(''latitude'', JObj [(''toString'', JNum (Fin 1))])]"]
    by (simp add: listing_eval)
  ultimately show ?thesis by simp
qed
section \<open>What a search leaves alone, and the requests it adds\<close>

lemma fetchLoop_frame:
  "fetchLoop ext p rq page attempt lastError script w = Some (res, rest, w')
     \<Longrightarrow> cache w' = cache w \<and> cache_fault w' = cache_fault w \<and> cache_log w' = cache_log w
         \<and> (\<exists>sent. requests w' = requests w @ sent
                \<and> (js_le (num_of_nat attempt) (maxRetries p) \<longrightarrow> sent \<noteq> []))"
proof (induction script arbitrary: attempt lastError w)
  case Nil
  then show ?case by (auto split: if_splits)
next
  case (Cons outcome script)
  show ?case
  proof (cases "js_le (num_of_nat attempt) (maxRetries p)")
    case False
    then show ?thesis using Cons.prems by auto
  next
    case True
    let ?w1 = "limiter_waitForToken (limiter p) w"
    let ?w2 = "?w1\<lparr>requests := requests ?w1 @ [rq]\<rparr>"
    obtain tr w3 where tb: "try_body ext p attempt outcome ?w2 = (tr, w3)"
      by (cases "try_body ext p attempt outcome ?w2")
    have w3: "cache w3 = cache w" "cache_fault w3 = cache_fault w" "cache_log w3 = cache_log w"
      "requests w3 = requests w @ [rq]"
      using try_body_world [of ext p attempt outcome ?w2] tb by auto
    show ?thesis
    proof (cases tr)
      case (Returns data)
      then show ?thesis using Cons.prems True tb w3 by (auto simp: Let_def)
    next
      case (Continues waitTime)
      then have "fetchLoop ext p rq page (Suc attempt) lastError script (sleep waitTime w3)
                 = Some (res, rest, w')"
        using Cons.prems True tb by (simp add: Let_def)
      from Cons.IH [OF this] show ?thesis using w3 by auto
    next
      case (Caught e)
      show ?thesis
      proof (cases "js_eq (num_of_nat attempt) (maxRetries p)")
        case True
        then show ?thesis using Cons.prems \<open>js_le (num_of_nat attempt) (maxRetries p)\<close> tb w3 Caught
          by (auto simp: Let_def)
      next
        case False
        then have "fetchLoop ext p rq page (Suc attempt) (Some e) script
                     (sleep (js_mul (initialBackoffMs p) (js_pow2 attempt)) w3)
                   = Some (res, rest, w')"
          using Cons.prems True tb Caught by (simp add: Let_def)
        from Cons.IH [OF this] show ?thesis using w3 by auto
      qed
    qed
  qed
qed

lemma num_of_nat_0: "num_of_nat 0 = Fin 0"
  by (simp add: num_of_nat_def num_of_rat_Fin)

lemma fetchPage_frame:
  assumes "fetchPage ext p params page w = Some (res, w')"
  shows "cache w' = cache w" "cache_fault w' = cache_fault w" "cache_log w' = cache_log w"
    "\<exists>sent. requests w' = requests w @ sent
        \<and> ((\<exists>rq. build_request ext p params page = Inr (Some rq)) \<and> js_le (Fin 0) (maxRetries p)
              \<longrightarrow> sent \<noteq> [])"
proof -
  show "cache w' = cache w" "cache_fault w' = cache_fault w" "cache_log w' = cache_log w"
    using assms fetchLoop_frame
    by (fastforce simp: fetchPage_def split: sum.splits option.splits prod.splits)+
  show "\<exists>sent. requests w' = requests w @ sent
        \<and> ((\<exists>rq. build_request ext p params page = Inr (Some rq)) \<and> js_le (Fin 0) (maxRetries p)
              \<longrightarrow> sent \<noteq> [])"
  proof (cases "build_request ext p params page")
    case (Inl e)
    then show ?thesis using assms by (simp add: fetchPage_def)
  next
    case (Inr built)
    show ?thesis
    proof (cases built)
      case None
      then show ?thesis using assms Inr by (simp add: fetchPage_def)
    next
      case (Some rq)
      then obtain rest w1 where fl: "fetchLoop ext p rq page 0 None (upstream w) w = Some (res, rest, w1)"
        and w': "w' = w1\<lparr>upstream := rest\<rparr>"
        using assms Inr by (auto simp: fetchPage_def split: option.splits prod.splits)
      from fetchLoop_frame [OF fl] show ?thesis
        using w' by (auto simp: num_of_nat_0)
    qed
  qed
qed

lemma collectAll_frame:
  "collectAll ext p params currentPage allFeatures w = Some (res, w')
     \<Longrightarrow> cache w' = cache w \<and> cache_fault w' = cache_fault w \<and> cache_log w' = cache_log w
         \<and> (\<exists>sent. requests w' = requests w @ sent
                \<and> ((\<exists>rq. build_request ext p params currentPage = Inr (Some rq))
                      \<and> js_le (Fin 0) (maxRetries p)
                      \<longrightarrow> sent \<noteq> []))"
proof (induction ext p params currentPage allFeatures w rule: collectAll.induct)
  case (1 ext p params currentPage allFeatures w)
  from "1.prems" obtain r w1 where fp: "fetchPage ext p params currentPage w = Some (r, w1)"
    by (subst (asm) collectAll.simps) (auto split: option.splits)
  note fr = fetchPage_frame [OF fp]
  show ?case
  proof (cases r)
    case (Inl e)
    then have "w' = w1"
      using "1.prems" fp by (subst (asm) collectAll.simps) simp
    then show ?thesis using fr by simp
  next
    case (Inr response)
    show ?thesis
    proof (cases "page_step ext (rnd w1) params currentPage response")
      case Break
      then have "w' = w1"
        using "1.prems" fp Inr by (subst (asm) collectAll.simps) simp
      then show ?thesis using fr by simp
    next
      case (Throws e)
      then have "w' = w1"
        using "1.prems" fp Inr by (subst (asm) collectAll.simps) simp
      then show ?thesis using fr by simp
    next
      case (Page transformed totalPages k')
      show ?thesis
      proof (cases "js_ToNumber totalPages")
        case (Inl e)
        then have "w' = w1\<lparr>rnd := k'\<rparr>"
          using "1.prems" fp \<open>r = Inr response\<close> Page by (subst (asm) collectAll.simps) simp
        then show ?thesis using fr by simp
      next
        case pages: (Inr pages)
        show ?thesis
        proof (cases "\<not> js_ge (num_of_nat currentPage) pages
                      \<and> js_le (num_of_nat (Suc currentPage)) pages")
          case False
          then have "w' = w1\<lparr>rnd := k'\<rparr>"
            using "1.prems" fp Inr Page pages
            by (subst (asm) collectAll.simps) (auto split: if_splits)
          then show ?thesis using fr by simp
        next
          case True
          then have rec: "collectAll ext p params (Suc currentPage) (allFeatures @ transformed)
                       (w1\<lparr>rnd := k'\<rparr>) = Some (res, w')"
            using "1.prems" fp Inr Page pages by (subst (asm) collectAll.simps) simp
          have "cache w' = cache (w1\<lparr>rnd := k'\<rparr>) \<and> cache_fault w' = cache_fault (w1\<lparr>rnd := k'\<rparr>)
                \<and> cache_log w' = cache_log (w1\<lparr>rnd := k'\<rparr>)
                \<and> (\<exists>sent. requests w' = requests (w1\<lparr>rnd := k'\<rparr>) @ sent
                  \<and> ((\<exists>rq. build_request ext p params (Suc currentPage) = Inr (Some rq))
                        \<and> js_le (Fin 0) (maxRetries p)
                        \<longrightarrow> sent \<noteq> []))"
            using "1.IH" [OF fp _ Inr Page pages _ _ rec] True by simp
          then show ?thesis using fr by auto
        qed
      qed
    qed
  qed
qed

lemma cache_op_frame [simp]:
  "requests (snd (cache_findUnique h w)) = requests w"
  "requests (snd (cache_delete h w)) = requests w"
  "requests (snd (cache_upsert h t w)) = requests w"
  "upstream (snd (cache_findUnique h w)) = upstream w"
  "cache_fault (snd (cache_findUnique h w)) = cache_fault w"
  "cache_fault (snd (cache_delete h w)) = cache_fault w"
  "clock (snd (cache_findUnique h w)) = clock w"
  by (simp_all add: cache_findUnique_def cache_delete_def cache_upsert_def Let_def
      split: option.splits)



lemma ageInHours_log [simp]: "ageInHours (w\<lparr>cache_log := l\<rparr>) cached = ageInHours w cached"
  by (simp add: ageInHours_def)

section \<open>The sample search, evaluated\<close>

lemma valid_sample_query: "valid_params sample_query"
  by (simp add: sample_query_def optional_def)


lemma transformListing_with_id:
  assumes "convertible listing" and "truthy (given_id_of listing)"
  shows "\<exists>feature. transformListing ext k listing = (Inr feature, k)"
  using assms toString_method_truthy [OF assms(2)]
  by (auto simp: transformListing_def convertible_def Let_def js_toString_def
      price_of_truthy [OF truthy_rawPrice] split: sum.splits prod.splits if_splits)

lemma sample_page_step:
  "\<exists>feature. page_step sample_externals k sample_query (Suc 0) sample_page
              = Page [feature] (JNum (Fin 1)) k"
proof -
  obtain feature where "transformListing sample_externals k sample_listing = (Inr feature, k)"
    using transformListing_with_id [of sample_listing sample_externals k]
    by (auto simp: sample_listing_def listing_eval)
  then show ?thesis
    by (simp add: page_step_def listings_of_def totalPages_of_def js_or_def sample_page_def
        num_of_nat_def num_of_rat_Fin)
qed

lemmas search_eval =
  default_provider sample_build_request read_sample_page answer_def ok_def
  fetchPage_def try_body_def limiter_waitForToken_def sleep_def bucket_eval number_eval
  fetch_and_store_def collectAll.simps cache_upsert_def



lemma cached_world_entry:
  "cache (cached_world now answers) (computeHash sample_externals sample_query)
     = Some \<lparr>payload = show_json sample_cached, createdAt = 0\<rparr>"
  "cache_fault (cached_world now answers) operation = None"
  "requests (cached_world now answers) = []"
  "cache_log (cached_world now answers) = []"
  "clock (cached_world now answers) = now"
  by (simp_all add: cached_world_def fresh_world_def default_provider)

lemma fresh_world_fields:
  "cache (fresh_world answers) = Map.empty"
  "cache_fault (fresh_world answers) operation = None"
  "requests (fresh_world answers) = []"
  "cache_log (fresh_world answers) = []"
  by (simp_all add: fresh_world_def default_provider)

lemma default_ttl: "ttlHours default_provider_record = Fin 24" "maxRetries default_provider_record = Fin 5"
  by (simp_all add: default_provider_record_def default_provider)

lemma sample_collectAll:
  "\<exists>feature w1. collectAll sample_externals default_provider_record sample_query 1 []
      ((fresh_world [answer 200 sample_page])\<lparr>cache_fault := f, cache_log := l\<rparr>)
     = Some (Inr [feature], w1)"
proof -
  obtain feature where ps: "page_step sample_externals 0 sample_query (Suc 0) sample_page
                              = Page [feature] (JNum (Fin 1)) 0"
    using sample_page_step by blast
  show ?thesis
    by (simp add: fresh_world_def default_provider_record_def search_eval ps)
qed

lemma stale_collectAll:
  "\<exists>feature w1. collectAll sample_externals default_provider_record sample_query 1 []
      ((cached_world 86400000 [answer 200 sample_page])
         \<lparr>cache_fault := f, cache_log := l, cache := c\<rparr>)
     = Some (Inr [feature], w1)"
proof -
  obtain feature where ps: "page_step sample_externals 0 sample_query (Suc 0) sample_page
                              = Page [feature] (JNum (Fin 1)) 0"
    using sample_page_step by blast
  show ?thesis
    by (simp add: cached_world_def fresh_world_def default_provider_record_def search_eval ps)
qed

section \<open>search: the cache lookup\<close>



section \<open>search: errors of the cache\<close>

text \<open>
  C7, as stated, fails: no call of the cache is guarded.  With a cache whose lookup raises,
  and an upstream ready to answer, search fails with the error of the cache and sends no
  request.
\<close>

theorem cache_error_counterexample:
  "map_option (\<lambda>(res, w'). (res, requests w'))
     (search sample_externals default_provider_record sample_query
        (faulty_world FindUnique (fresh_world [answer 200 sample_page])))
   = Some (Inl (Error ''cache unavailable''), [])"
  by (simp add: search_def valid_sample_query cache_findUnique_def faulty_world_def
      fresh_world_fields Let_def)

text \<open>
  C7, amended.  For every valid search query, an error raised by the cache collaborator is not
  caught: search fails with that error.  An error of the lookup, or of the deletion of an
  expired entry, ends the search before any request is sent; an error of the store, after a
  fetch sequence that collected features, ends it in place of the features, whether the
  sequence followed a miss or the deletion of an expired entry.
\<close>

theorem cache_error_propagates:
  assumes valid: "valid_params params"
  shows "(cache_fault w FindUnique = Some e
            \<longrightarrow> (\<exists>w'. search ext p params w = Some (Inl e, w') \<and> requests w' = requests w))
       \<and> (cache_fault w FindUnique = None \<and> cache w (computeHash ext params) = Some cached
            \<and> \<not> js_lt (ageInHours w cached) (ttlHours p) \<and> cache_fault w Delete = Some e
            \<longrightarrow> (\<exists>w'. search ext p params w = Some (Inl e, w') \<and> requests w' = requests w))
       \<and> (cache_fault w FindUnique = None \<and> cache w (computeHash ext params) = None
            \<and> cache_fault w Upsert = Some e
            \<and> collectAll ext p params 1 []
                 (w\<lparr>cache_log := cache_log w @ [(FindUnique, computeHash ext params)]\<rparr>)
                = Some (Inr allFeatures, fetched)
            \<and> allFeatures \<noteq> []
            \<longrightarrow> (\<exists>w'. search ext p params w = Some (Inl e, w')))
       \<and> (cache_fault w FindUnique = None \<and> cache w (computeHash ext params) = Some cached
            \<and> \<not> js_lt (ageInHours w cached) (ttlHours p) \<and> cache_fault w Delete = None
            \<and> cache_fault w Upsert = Some e
            \<and> collectAll ext p params 1 []
                 (w\<lparr>cache_log := cache_log w @ [(FindUnique, computeHash ext params),
                                                (Delete, computeHash ext params)],
                    cache := (cache w)(computeHash ext params := None)\<rparr>)
                = Some (Inr allFeatures, fetched)
            \<and> allFeatures \<noteq> []
            \<longrightarrow> (\<exists>w'. search ext p params w = Some (Inl e, w')))"
proof (intro conjI impI)
  assume "cache_fault w FindUnique = Some e"
  then show "\<exists>w'. search ext p params w = Some (Inl e, w') \<and> requests w' = requests w"
    using valid by (simp add: search_def cache_findUnique_def Let_def)
next
  assume "cache_fault w FindUnique = None \<and> cache w (computeHash ext params) = Some cached
            \<and> \<not> js_lt (ageInHours w cached) (ttlHours p) \<and> cache_fault w Delete = Some e"
  then show "\<exists>w'. search ext p params w = Some (Inl e, w') \<and> requests w' = requests w"
    using valid by (simp add: search_def cache_findUnique_def cache_delete_def Let_def)
next
  assume a: "cache_fault w FindUnique = None \<and> cache w (computeHash ext params) = None
            \<and> cache_fault w Upsert = Some e
            \<and> collectAll ext p params 1 []
                 (w\<lparr>cache_log := cache_log w @ [(FindUnique, computeHash ext params)]\<rparr>)
                = Some (Inr allFeatures, fetched)
            \<and> allFeatures \<noteq> []"
  then have ca: "collectAll ext p params 1 []
                 (w\<lparr>cache_log := cache_log w @ [(FindUnique, computeHash ext params)]\<rparr>)
                = Some (Inr allFeatures, fetched)"
    by simp
  have "cache_fault fetched Upsert = Some e"
    using collectAll_frame [OF ca] a by simp
  then show "\<exists>w'. search ext p params w = Some (Inl e, w')"
    using valid a ca
    by (simp add: search_def cache_findUnique_def fetch_and_store_def cache_upsert_def Let_def)
next
  assume a: "cache_fault w FindUnique = None \<and> cache w (computeHash ext params) = Some cached
            \<and> \<not> js_lt (ageInHours w cached) (ttlHours p) \<and> cache_fault w Delete = None
            \<and> cache_fault w Upsert = Some e
            \<and> collectAll ext p params 1 []
                 (w\<lparr>cache_log := cache_log w @ [(FindUnique, computeHash ext params),
                                                (Delete, computeHash ext params)],
                    cache := (cache w)(computeHash ext params := None)\<rparr>)
                = Some (Inr allFeatures, fetched)
            \<and> allFeatures \<noteq> []"
  then have ca: "collectAll ext p params 1 []
                 (w\<lparr>cache_log := cache_log w @ [(FindUnique, computeHash ext params),
                                                (Delete, computeHash ext params)],
                    cache := (cache w)(computeHash ext params := None)\<rparr>)
                = Some (Inr allFeatures, fetched)"
    by simp
  have "cache_fault fetched Upsert = Some e"
    using collectAll_frame [OF ca] a by simp
  then show "\<exists>w'. search ext p params w = Some (Inl e, w')"
    using valid a ca
    by (simp add: search_def cache_findUnique_def cache_delete_def fetch_and_store_def
        cache_upsert_def Let_def)
qed

text \<open>
  The theorem at the sample query, for a failing lookup, a failing deletion, and a failing store
  after a miss and after the deletion of an expired entry.
\<close>

theorem cache_error_propagates_witness:
  "(\<exists>w'. search sample_externals default_provider_record sample_query
            (faulty_world FindUnique (fresh_world [answer 200 sample_page]))
          = Some (Inl (Error ''cache unavailable''), w')
        \<and> requests w' = [])
   \<and> (\<exists>w'. search sample_externals default_provider_record sample_query
              (faulty_world Delete (cached_world 86400000 [answer 200 sample_page]))
            = Some (Inl (Error ''cache unavailable''), w')
          \<and> requests w' = [])
   \<and> (\<exists>w'. search sample_externals default_provider_record sample_query
              (faulty_world Upsert (fresh_world [answer 200 sample_page]))
            = Some (Inl (Error ''cache unavailable''), w'))
   \<and> (\<exists>w'. search sample_externals default_provider_record sample_query
              (faulty_world Upsert (cached_world 86400000 [answer 200 sample_page]))
            = Some (Inl (Error ''cache unavailable''), w'))"
proof (intro conjI)
  let ?e = "Error ''cache unavailable''"
  let ?h = "computeHash sample_externals sample_query"
  let ?row = "\<lparr>payload = show_json sample_cached, createdAt = 0\<rparr>"
  note general = cache_error_propagates [OF valid_sample_query]
  show "\<exists>w'. search sample_externals default_provider_record sample_query
            (faulty_world FindUnique (fresh_world [answer 200 sample_page]))
          = Some (Inl ?e, w')
        \<and> requests w' = []"
    using general [where w = "faulty_world FindUnique (fresh_world [answer 200 sample_page])"
        and e = ?e and ext = sample_externals and p = default_provider_record]
    by (simp add: faulty_world_def fresh_world_fields)
  have stale: "\<not> js_lt (ageInHours (cached_world 86400000 [answer 200 sample_page]) ?row)
          (ttlHours default_provider_record)"
    by (simp add: ageInHours_def cached_world_entry default_ttl number_eval)
  then show "\<exists>w'. search sample_externals default_provider_record sample_query
              (faulty_world Delete (cached_world 86400000 [answer 200 sample_page]))
            = Some (Inl ?e, w')
          \<and> requests w' = []"
    using general [where w = "faulty_world Delete (cached_world 86400000 [answer 200 sample_page])"
        and e = ?e and ext = sample_externals and p = default_provider_record and cached = ?row]
    by (simp add: faulty_world_def cached_world_entry ageInHours_def)
  let ?w = "faulty_world Upsert (fresh_world [answer 200 sample_page])"
  obtain feature w1 where
    "collectAll sample_externals default_provider_record sample_query 1 []
       (?w\<lparr>cache_log := cache_log ?w @ [(FindUnique, ?h)]\<rparr>) = Some (Inr [feature], w1)"
    using sample_collectAll
      [where f = "\<lambda>operation. if operation = Upsert then Some ?e else None"
         and l = "[(FindUnique, ?h)]"]
    by (auto simp: faulty_world_def fresh_world_fields)
  then show "\<exists>w'. search sample_externals default_provider_record sample_query ?w
            = Some (Inl ?e, w')"
    using general [where w = ?w and e = ?e and ext = sample_externals
        and p = default_provider_record and allFeatures = "[feature]" and fetched = w1]
    by (simp add: faulty_world_def fresh_world_fields)
  let ?v = "faulty_world Upsert (cached_world 86400000 [answer 200 sample_page])"
  obtain feature' w2 where
    "collectAll sample_externals default_provider_record sample_query 1 []
       (?v\<lparr>cache_log := cache_log ?v @ [(FindUnique, ?h), (Delete, ?h)],
           cache := (cache ?v)(?h := None)\<rparr>) = Some (Inr [feature'], w2)"
    using stale_collectAll
      [where f = "\<lambda>operation. if operation = Upsert then Some ?e else None"
         and l = "[(FindUnique, ?h), (Delete, ?h)]"
         and c = "(cache (cached_world 86400000 [answer 200 sample_page]))(?h := None)"]
    by (auto simp: faulty_world_def cached_world_entry)
  then show "\<exists>w'. search sample_externals default_provider_record sample_query ?v
            = Some (Inl ?e, w')"
    using stale general [where w = ?v and e = ?e and ext = sample_externals
        and p = default_provider_record and allFeatures = "[feature']" and fetched = w2
        and cached = ?row]
    by (simp add: faulty_world_def cached_world_entry ageInHours_def)
qed

end
